theory Spec2Isabelle
  imports Main "HOL-Library.Sublist" "HOL-Library.Word"
begin

section \<open>The security scanner (scan_security.py)\<close>

subsection \<open>Severity, Finding, ScanResult\<close>

datatype Severity = CRITICAL | HIGH | MEDIUM | LOW

text \<open>The \<open>value\<close> and \<open>name\<close> attributes of the enum members.\<close>

fun severity_value :: "Severity \<Rightarrow> int" where
  "severity_value CRITICAL = 4"
| "severity_value HIGH = 3"
| "severity_value MEDIUM = 2"
| "severity_value LOW = 1"

fun severity_name :: "Severity \<Rightarrow> string" where
  "severity_name CRITICAL = ''CRITICAL''"
| "severity_name HIGH = ''HIGH''"
| "severity_name MEDIUM = ''MEDIUM''"
| "severity_name LOW = ''LOW''"

text \<open>
  Text that comes from the file system (file contents, file names, paths) is a Python
  \<open>str\<close>: a sequence of Unicode code points, lone surrogates included (a file name that
  is not UTF-8), which an 8-bit \<open>char\<close> cannot hold. It is modelled as a list of code
  points. Rule identifiers, descriptions, categories and regular expressions are ASCII
  literals of the source and stay \<open>string\<close>; \<open>text_of\<close> gives their code points.
\<close>

type_synonym pystr = "nat list"

definition text_of :: "string \<Rightarrow> pystr" where
  "text_of s = map of_char s"

record Finding =
  rule_id :: string
  severity :: Severity
  category :: string
  description :: string
  file_path :: pystr
  line_number :: int
  code_snippet :: pystr
  remediation :: string

record ScanResult =
  findings :: "Finding list"
  files_scanned :: int

definition new_ScanResult :: ScanResult where
  "new_ScanResult = \<lparr>findings = [], files_scanned = 0\<rparr>"

definition add :: "ScanResult \<Rightarrow> Finding \<Rightarrow> ScanResult" where
  "add r f = r\<lparr>findings := findings r @ [f]\<rparr>"

definition get_by_severity :: "ScanResult \<Rightarrow> Severity \<Rightarrow> Finding list" where
  "get_by_severity r s = [f \<leftarrow> findings r. severity f = s]"

definition has_critical :: "ScanResult \<Rightarrow> bool" where
  "has_critical r = (length (get_by_severity r CRITICAL) > 0)"

subsection \<open>String operations of the language\<close>

definition NL :: nat where "NL = 10"
definition CR :: nat where "CR = 13"

text \<open>\<open>content.split('\n')\<close>: never empty, one more piece than there are newlines.\<close>

fun split_nl :: "pystr \<Rightarrow> pystr list" where
  "split_nl [] = [[]]"
| "split_nl (c # cs) =
     (if c = NL then [] # split_nl cs
      else (case split_nl cs of l # ls \<Rightarrow> (c # l) # ls | [] \<Rightarrow> [[c]]))"

text \<open>\<open>'\n'.join(lines)\<close>.\<close>

fun join_nl :: "pystr list \<Rightarrow> pystr" where
  "join_nl [] = []"
| "join_nl [l] = l"
| "join_nl (l # ls) = l @ NL # join_nl ls"

text \<open>\<open>s.count('\n')\<close>.\<close>

fun count_nl :: "pystr \<Rightarrow> nat" where
  "count_nl [] = 0"
| "count_nl (c # cs) = (if c = NL then Suc (count_nl cs) else count_nl cs)"

text \<open>\<open>str.isspace\<close> on one code point, and \<open>str.strip()\<close> with no argument.\<close>

definition isspace :: "nat \<Rightarrow> bool" where
  "isspace c \<longleftrightarrow>
     (9 \<le> c \<and> c \<le> 13) \<or> (28 \<le> c \<and> c \<le> 32) \<or> c = 0x85 \<or> c = 0xA0 \<or> c = 0x1680 \<or>
     (0x2000 \<le> c \<and> c \<le> 0x200A) \<or> c = 0x2028 \<or> c = 0x2029 \<or> c = 0x202F \<or>
     c = 0x205F \<or> c = 0x3000"

definition strip :: "pystr \<Rightarrow> pystr" where
  "strip s = rev (dropWhile isspace (rev (dropWhile isspace s)))"

text \<open>
  \<open>str.lower\<close> on package names. A \<open>char\<close> stands for a code point below 256; there
  the cased letters are the ASCII ones and the Latin-1 capitals 0xC0 to 0xDE (without
  the multiplication sign 0xD7).
\<close>

definition lower_char :: "char \<Rightarrow> char" where
  "lower_char c =
     (let n = (of_char c :: nat)
      in if (65 \<le> n \<and> n \<le> 90) \<or> (192 \<le> n \<and> n \<le> 222 \<and> n \<noteq> 215)
         then char_of (n + 32) else c)"

definition lower :: "string \<Rightarrow> string" where
  "lower s = map lower_char s"

definition startswith :: "'a list \<Rightarrow> 'a list \<Rightarrow> bool" where
  "startswith s p = (take (length p) s = p)"

text \<open>
  \<open>str.lower\<close> on a file name, code point by code point. It is exact on ASCII, on
  Latin-1, on the Kelvin sign (the one character outside ASCII that lowers to an ASCII
  letter) and on the dotted capital I (the one character that lowers to two). Any other
  character outside ASCII is left as it is: its lower case is outside ASCII as well,
  and the result is only ever compared with the ASCII entries of
  \<open>SCANNABLE_EXTENSIONS\<close>.
\<close>

definition lower_code_point :: "nat \<Rightarrow> pystr" where
  "lower_code_point c =
     (if (65 \<le> c \<and> c \<le> 90) \<or> (192 \<le> c \<and> c \<le> 222 \<and> c \<noteq> 215) then [c + 32]
      else if c = 0x212A then [107]
      else if c = 0x130 then [105, 0x307]
      else [c])"

definition lower_name :: "pystr \<Rightarrow> pystr" where
  "lower_name s = concat (map lower_code_point s)"

definition bsl :: string where "bsl = [CHR 0x5C]"
definition sq :: string where "sq = [CHR 0x27]"

subsection \<open>Detection patterns\<close>

text \<open>
  A rule is the tuple (regular expression, rule id, description) of the source tables.
  A string literal cannot hold a backslash or a lone quote, so \<open>bsl\<close> and \<open>sq\<close> stand
  for them inside the regular expressions.
\<close>

type_synonym rule = "string \<times> string \<times> string"

definition SECRETS_PATTERNS :: "rule list" where
  \<open>SECRETS_PATTERNS =
   [(''["'' @ bsl @ sq @ ''](?:sk|pk)[-_](?:live|test)[-_][a-zA-Z0-9]{24,}["'' @ bsl @ sq @ '']'',
     ''SEC-001'', ''Stripe API key''),
    (''["'' @ bsl @ sq @ '']AIza[a-zA-Z0-9_-]{35}["'' @ bsl @ sq @ '']'',
     ''SEC-002'', ''Google API key''),
    (''["'' @ bsl @ sq @ '']AKIA[A-Z0-9]{16}["'' @ bsl @ sq @ '']'',
     ''SEC-003'', ''AWS Access Key ID''),
    (''["'' @ bsl @ sq @ '']ghp_[a-zA-Z0-9]{36}["'' @ bsl @ sq @ '']'',
     ''SEC-004'', ''GitHub Personal Access Token''),
    (''["'' @ bsl @ sq @ '']xox[baprs]-[a-zA-Z0-9-]{10,}["'' @ bsl @ sq @ '']'',
     ''SEC-005'', ''Slack Token''),
    (''["'' @ bsl @ sq @ '']eyJ[a-zA-Z0-9_-]*'' @ bsl @ ''.eyJ[a-zA-Z0-9_-]*'' @ bsl @ ''.[a-zA-Z0-9_-]*["'' @ bsl @ sq @ '']'',
     ''SEC-006'', ''JWT Token''),
    (''["'' @ bsl @ sq @ '']your[-_]?256[-_]?bit[-_]?secret["'' @ bsl @ sq @ '']'',
     ''SEC-007'', ''AI-generated placeholder secret''),
    (''["'' @ bsl @ sq @ '']secret["'' @ bsl @ sq @ '']'',
     ''SEC-008'', ''Hardcoded "secret" value''),
    (''["'' @ bsl @ sq @ '']password123["'' @ bsl @ sq @ '']'',
     ''SEC-009'', ''Weak hardcoded password''),
    (''["'' @ bsl @ sq @ '']admin@example'' @ bsl @ ''.com["'' @ bsl @ sq @ '']'',
     ''SEC-010'', ''AI-generated test credential''),
    (''["'' @ bsl @ sq @ '']changeme["'' @ bsl @ sq @ '']'',
     ''SEC-011'', ''Placeholder password''),
    (''password'' @ bsl @ ''s*='' @ bsl @ ''s*["'' @ bsl @ sq @ ''][^"'' @ bsl @ sq @ '']+["'' @ bsl @ sq @ '']'',
     ''SEC-012'', ''Hardcoded password assignment''),
    (''api[_-]?key'' @ bsl @ ''s*='' @ bsl @ ''s*["'' @ bsl @ sq @ ''][a-zA-Z0-9]{16,}["'' @ bsl @ sq @ '']'',
     ''SEC-013'', ''Hardcoded API key''),
    (''mongodb(?:'' @ bsl @ ''+srv)?://[^"'' @ bsl @ sq @ bsl @ ''s]+:[^"'' @ bsl @ sq @ bsl @ ''s]+@'',
     ''SEC-014'', ''MongoDB connection with credentials''),
    (''postgres(?:ql)?://[^"'' @ bsl @ sq @ bsl @ ''s]+:[^"'' @ bsl @ sq @ bsl @ ''s]+@'',
     ''SEC-015'', ''PostgreSQL connection with credentials''),
    (''mysql://[^"'' @ bsl @ sq @ bsl @ ''s]+:[^"'' @ bsl @ sq @ bsl @ ''s]+@'',
     ''SEC-016'', ''MySQL connection with credentials'')]\<close>

definition INJECTION_sql :: "rule list" where
  \<open>INJECTION_sql =
   [(''execute'' @ bsl @ ''s*'' @ bsl @ ''('' @ bsl @ ''s*["'' @ bsl @ sq @ ''].*?'' @ bsl @ ''%s.*?["'' @ bsl @ sq @ ''].*?'' @ bsl @ ''%'',
     ''INJ-001'', ''SQL string formatting (use parameterized queries)''),
    (''execute'' @ bsl @ ''s*'' @ bsl @ ''('' @ bsl @ ''s*f["'' @ bsl @ sq @ '']'',
     ''INJ-002'', ''SQL f-string injection risk''),
    (''execute'' @ bsl @ ''s*'' @ bsl @ ''('' @ bsl @ ''s*["'' @ bsl @ sq @ ''].*?'' @ bsl @ ''+'',
     ''INJ-003'', ''SQL string concatenation''),
    (''cursor'' @ bsl @ ''.execute'' @ bsl @ ''s*'' @ bsl @ ''([^,)]*'' @ bsl @ ''+'',
     ''INJ-004'', ''Cursor execute with concatenation''),
    (bsl @ ''.query'' @ bsl @ ''s*'' @ bsl @ ''('' @ bsl @ ''s*[`"'' @ bsl @ sq @ ''].*?'' @ bsl @ ''$'' @ bsl @ ''{'',
     ''INJ-005'', ''SQL template literal injection''),
    (''SELECT.*FROM.*WHERE.*'' @ bsl @ ''+.*'' @ bsl @ ''+'',
     ''INJ-006'', ''Raw SQL with concatenation'')]\<close>

definition INJECTION_command :: "rule list" where
  \<open>INJECTION_command =
   [(''os'' @ bsl @ ''.system'' @ bsl @ ''s*'' @ bsl @ ''('',
     ''INJ-010'', ''os.system() is dangerous''),
    (''subprocess'' @ bsl @ ''.[a-z]+'' @ bsl @ ''s*'' @ bsl @ ''([^)]*shell'' @ bsl @ ''s*='' @ bsl @ ''s*True'',
     ''INJ-011'', ''subprocess with shell=True''),
    (''eval'' @ bsl @ ''s*'' @ bsl @ ''('' @ bsl @ ''s*(?:request|req|input|user)'',
     ''INJ-012'', ''eval() with user input''),
    (''exec'' @ bsl @ ''s*'' @ bsl @ ''('' @ bsl @ ''s*(?:request|req|input|user)'',
     ''INJ-013'', ''exec() with user input''),
    (''child_process'' @ bsl @ ''.exec'' @ bsl @ ''s*'' @ bsl @ ''('',
     ''INJ-014'', ''Node.js exec() command injection risk'')]\<close>

definition INJECTION_xss :: "rule list" where
  \<open>INJECTION_xss =
   [(''innerHTML'' @ bsl @ ''s*='' @ bsl @ ''s*(?!['' @ bsl @ sq @ ''"]'' @ bsl @ ''s*['' @ bsl @ sq @ ''"])'',
     ''INJ-020'', ''innerHTML assignment (XSS risk)''),
    (''document'' @ bsl @ ''.write'' @ bsl @ ''s*'' @ bsl @ ''('',
     ''INJ-021'', ''document.write() XSS risk''),
    (bsl @ ''.html'' @ bsl @ ''s*'' @ bsl @ ''('' @ bsl @ ''s*(?:req|request|user|data)'',
     ''INJ-022'', ''jQuery .html() with user data''),
    (''dangerouslySetInnerHTML'',
     ''INJ-023'', ''React dangerouslySetInnerHTML''),
    (''v-html'' @ bsl @ ''s*='',
     ''INJ-024'', ''Vue v-html directive (XSS risk)''),
    (bsl @ ''{'' @ bsl @ ''{'' @ bsl @ ''{.*'' @ bsl @ ''}'' @ bsl @ ''}'' @ bsl @ ''}'',
     ''INJ-025'', ''Handlebars unescaped output'')]\<close>

definition INJECTION_nosql :: "rule list" where
  \<open>INJECTION_nosql =
   [(bsl @ ''.find'' @ bsl @ ''s*'' @ bsl @ ''('' @ bsl @ ''s*(?:req'' @ bsl @ ''.body|request'' @ bsl @ ''.body)'',
     ''INJ-030'', ''NoSQL injection via req.body''),
    (bsl @ ''.findOne'' @ bsl @ ''s*'' @ bsl @ ''('' @ bsl @ ''s*(?:req'' @ bsl @ ''.body|request'' @ bsl @ ''.body)'',
     ''INJ-031'', ''NoSQL injection via req.body''),
    (bsl @ ''$where.*(?:req|request|user)'',
     ''INJ-032'', ''MongoDB $where injection'')]\<close>

definition AUTH_PATTERNS :: "rule list" where
  \<open>AUTH_PATTERNS =
   [(''hashlib'' @ bsl @ ''.md5'' @ bsl @ ''s*'' @ bsl @ ''('',
     ''AUTH-001'', ''MD5 for password hashing (use bcrypt/Argon2)''),
    (''hashlib'' @ bsl @ ''.sha1'' @ bsl @ ''s*'' @ bsl @ ''('',
     ''AUTH-002'', ''SHA1 for password hashing (use bcrypt/Argon2)''),
    (''crypto'' @ bsl @ ''.createHash'' @ bsl @ ''s*'' @ bsl @ ''('' @ bsl @ ''s*["'' @ bsl @ sq @ '']md5'',
     ''AUTH-003'', ''Node.js MD5 hashing''),
    (''crypto'' @ bsl @ ''.createHash'' @ bsl @ ''s*'' @ bsl @ ''('' @ bsl @ ''s*["'' @ bsl @ sq @ '']sha1'',
     ''AUTH-004'', ''Node.js SHA1 hashing''),
    (''localStorage'' @ bsl @ ''.setItem'' @ bsl @ ''s*'' @ bsl @ ''('' @ bsl @ ''s*["'' @ bsl @ sq @ ''](?:token|jwt|auth)'',
     ''AUTH-010'', ''Token in localStorage (use HttpOnly cookies)''),
    (''sessionStorage'' @ bsl @ ''.setItem'' @ bsl @ ''s*'' @ bsl @ ''('' @ bsl @ ''s*["'' @ bsl @ sq @ ''](?:token|jwt|auth)'',
     ''AUTH-011'', ''Token in sessionStorage''),
    (''@app'' @ bsl @ ''.route'' @ bsl @ ''s*'' @ bsl @ ''([^)]*'' @ bsl @ '')'' @ bsl @ ''s*'' @ bsl @ ''ndef'' @ bsl @ ''s+'' @ bsl @ ''w+'' @ bsl @ ''s*'' @ bsl @ ''([^)]*'' @ bsl @ ''):'',
     ''AUTH-020'', ''Flask route without auth decorator (verify manually)''),
    (''router'' @ bsl @ ''.(get|post|put|delete|patch)'' @ bsl @ ''s*'' @ bsl @ ''([^)]*,'' @ bsl @ ''s*(?:async'' @ bsl @ ''s+)?'' @ bsl @ ''([^)]*'' @ bsl @ '')'' @ bsl @ ''s*=>'',
     ''AUTH-021'', ''Express route (verify auth middleware)'')]\<close>

definition CRYPTO_PATTERNS :: "rule list" where
  \<open>CRYPTO_PATTERNS =
   [(''DES'' @ bsl @ ''s*'' @ bsl @ ''('',
     ''CRYPTO-001'', ''DES encryption (use AES-256)''),
    (''Blowfish'' @ bsl @ ''s*'' @ bsl @ ''('',
     ''CRYPTO-002'', ''Blowfish (use AES-256)''),
    (''RC4'' @ bsl @ ''s*'' @ bsl @ ''('',
     ''CRYPTO-003'', ''RC4 encryption (use AES-256)''),
    (''random'' @ bsl @ ''.randint'' @ bsl @ ''s*'' @ bsl @ ''(.*(?:token|key|secret|password)'',
     ''CRYPTO-010'', ''Insecure random for security (use secrets module)''),
    (''Math'' @ bsl @ ''.random'' @ bsl @ ''s*'' @ bsl @ ''('' @ bsl @ '').*(?:token|key|secret|id)'',
     ''CRYPTO-011'', ''Math.random() for security tokens''),
    (''random'' @ bsl @ ''.choice'' @ bsl @ ''s*'' @ bsl @ ''(.*(?:token|key|secret)'',
     ''CRYPTO-012'', ''random.choice for security (use secrets.choice)'')]\<close>

definition CLOUD_PATTERNS :: "rule list" where
  \<open>CLOUD_PATTERNS =
   [(bsl @ ''.ref'' @ bsl @ ''s*'' @ bsl @ ''('' @ bsl @ ''s*["'' @ bsl @ sq @ '']["'' @ bsl @ sq @ bsl @ ''s]*'' @ bsl @ '')'' @ bsl @ ''.set'',
     ''CLOUD-001'', ''Firebase write without path validation''),
    (''supabase'' @ bsl @ ''s*='' @ bsl @ ''s*createClient'' @ bsl @ ''s*'' @ bsl @ ''([^)]*anon[^)]*'' @ bsl @ '')'',
     ''CLOUD-002'', ''Supabase anon key in client (expected but verify RLS)''),
    (''service[_-]?role[_-]?key'',
     ''CLOUD-003'', ''Supabase service role key exposure''),
    (''cors'' @ bsl @ ''s*'' @ bsl @ ''('' @ bsl @ ''s*'' @ bsl @ ''{'' @ bsl @ ''s*origin'' @ bsl @ ''s*:'' @ bsl @ ''s*["'' @ bsl @ sq @ '']?'' @ bsl @ ''*["'' @ bsl @ sq @ '']?'',
     ''CLOUD-010'', ''CORS allows all origins''),
    (''Access-Control-Allow-Origin.*'' @ bsl @ ''*'',
     ''CLOUD-011'', ''CORS header allows all origins''),
    (''res'' @ bsl @ ''.setHeader'' @ bsl @ ''s*'' @ bsl @ ''('' @ bsl @ ''s*['' @ sq @ bsl @ ''"]Access-Control-Allow-Origin['' @ sq @ bsl @ ''"]'' @ bsl @ ''s*,'' @ bsl @ ''s*['' @ sq @ bsl @ ''"]'' @ bsl @ bsl @ ''*['' @ sq @ bsl @ ''"]'',
     ''CLOUD-012'', ''Wildcard CORS header''),
    (''ACL'' @ bsl @ ''s*[=:]'' @ bsl @ ''s*["'' @ bsl @ sq @ '']public-read'',
     ''CLOUD-020'', ''S3 public read ACL''),
    (''BlockPublicAccess.*false'',
     ''CLOUD-021'', ''S3 public access enabled'')]\<close>

definition DATA_PATTERNS :: "rule list" where
  \<open>DATA_PATTERNS =
   [(''pickle'' @ bsl @ ''.loads?'' @ bsl @ ''s*'' @ bsl @ ''('',
     ''DATA-001'', ''Unsafe pickle deserialization''),
    (''yaml'' @ bsl @ ''.load'' @ bsl @ ''s*'' @ bsl @ ''([^)]*(?!Loader)'',
     ''DATA-002'', ''YAML load without safe loader''),
    (''torch'' @ bsl @ ''.load'' @ bsl @ ''s*'' @ bsl @ ''([^)]*(?!weights_only)'',
     ''DATA-003'', ''PyTorch load without weights_only=True''),
    (''json'' @ bsl @ ''.loads?'' @ bsl @ ''s*'' @ bsl @ ''(.*request'',
     ''DATA-010'', ''JSON parse of request (verify schema validation)'')]\<close>

text \<open>The dictionary \<open>INJECTION_PATTERNS\<close>, in insertion order.\<close>

definition INJECTION_PATTERNS :: "(string \<times> rule list) list" where
  "INJECTION_PATTERNS =
     [(''sql'', INJECTION_sql), (''command'', INJECTION_command),
      (''xss'', INJECTION_xss), (''nosql'', INJECTION_nosql)]"

definition SCANNABLE_EXTENSIONS :: "pystr list" where
  "SCANNABLE_EXTENSIONS =
     map text_of
       [''.py'', ''.js'', ''.ts'', ''.jsx'', ''.tsx'', ''.vue'', ''.svelte'',
        ''.java'', ''.kt'', ''.go'', ''.rs'', ''.rb'', ''.php'',
        ''.html'', ''.htm'', ''.json'', ''.yaml'', ''.yml'', ''.toml'',
        ''.env'', ''.config'', ''.conf'']"

definition SKIP_DIRS :: "pystr list" where
  "SKIP_DIRS =
     map text_of
       [''node_modules'', ''.git'', ''__pycache__'', ''.next'', ''.nuxt'',
        ''dist'', ''build'', ''.venv'', ''venv'', ''env'', ''.env'',
        ''vendor'', ''target'', ''.idea'', ''.vscode'']"

subsection \<open>Files and reading them\<close>

text \<open>
  A file either cannot be opened or read (\<open>read_text\<close> raises an \<open>OSError\<close>) or holds
  bytes. A directory lists its entries in the order \<open>os.walk\<close> reports them.
\<close>

datatype file_data = Unreadable | Bytes "8 word list"

datatype node = File pystr file_data | Dir pystr "node list"

text \<open>
  Decoding as \<open>read_text(encoding='utf-8', errors='ignore')\<close> does it: a well-formed
  sequence gives its code point, any byte that does not start one is dropped, and
  decoding goes on with the next byte. Overlong forms, surrogates and values above
  0x10FFFF are ill-formed.
\<close>

definition is_cont :: "8 word \<Rightarrow> bool" where
  "is_cont b \<longleftrightarrow> 0x80 \<le> b \<and> b \<le> 0xBF"

definition second_ok :: "8 word \<Rightarrow> 8 word \<Rightarrow> bool" where
  "second_ok b b1 \<longleftrightarrow>
     (if b = 0xE0 then 0xA0 \<le> b1 \<and> b1 \<le> 0xBF
      else if b = 0xED then 0x80 \<le> b1 \<and> b1 \<le> 0x9F
      else if b = 0xF0 then 0x90 \<le> b1 \<and> b1 \<le> 0xBF
      else if b = 0xF4 then 0x80 \<le> b1 \<and> b1 \<le> 0x8F
      else is_cont b1)"

definition low6 :: "8 word \<Rightarrow> nat" where
  "low6 b = unat b mod 64"

fun utf8_decode_ignore :: "8 word list \<Rightarrow> pystr" where
  "utf8_decode_ignore [] = []"
| "utf8_decode_ignore (b # bs) =
     (if b < 0x80 then unat b # utf8_decode_ignore bs
      else if 0xC2 \<le> b \<and> b \<le> 0xDF then
        (case bs of
           b1 # r \<Rightarrow>
             if is_cont b1 then (unat b mod 32 * 64 + low6 b1) # utf8_decode_ignore r
             else utf8_decode_ignore bs
         | [] \<Rightarrow> [])
      else if 0xE0 \<le> b \<and> b \<le> 0xEF then
        (case bs of
           b1 # b2 # r \<Rightarrow>
             if second_ok b b1 \<and> is_cont b2
             then (unat b mod 16 * 4096 + low6 b1 * 64 + low6 b2) # utf8_decode_ignore r
             else utf8_decode_ignore bs
         | _ \<Rightarrow> utf8_decode_ignore bs)
      else if 0xF0 \<le> b \<and> b \<le> 0xF4 then
        (case bs of
           b1 # b2 # b3 # r \<Rightarrow>
             if second_ok b b1 \<and> is_cont b2 \<and> is_cont b3
             then (unat b mod 8 * 262144 + low6 b1 * 4096 + low6 b2 * 64 + low6 b3)
                    # utf8_decode_ignore r
             else utf8_decode_ignore bs
         | _ \<Rightarrow> utf8_decode_ignore bs)
      else utf8_decode_ignore bs)"

text \<open>
  The byte sequences that are not UTF-8: decoding meets a byte that starts no
  well-formed sequence. A strict decoder raises \<open>UnicodeDecodeError\<close> on them; with
  \<open>errors='ignore'\<close> the byte is dropped, as above.
\<close>

fun undecodable :: "8 word list \<Rightarrow> bool" where
  "undecodable [] = False"
| "undecodable (b # bs) =
     (if b < 0x80 then undecodable bs
      else if 0xC2 \<le> b \<and> b \<le> 0xDF then
        (case bs of
           b1 # r \<Rightarrow> if is_cont b1 then undecodable r else True
         | [] \<Rightarrow> True)
      else if 0xE0 \<le> b \<and> b \<le> 0xEF then
        (case bs of
           b1 # b2 # r \<Rightarrow> if second_ok b b1 \<and> is_cont b2 then undecodable r else True
         | _ \<Rightarrow> True)
      else if 0xF0 \<le> b \<and> b \<le> 0xF4 then
        (case bs of
           b1 # b2 # b3 # r \<Rightarrow>
             if second_ok b b1 \<and> is_cont b2 \<and> is_cont b3 then undecodable r else True
         | _ \<Rightarrow> True)
      else True)"

text \<open>Text mode translates \<open>\r\n\<close> and a lone \<open>\r\<close> to \<open>\n\<close>.\<close>

fun universal_newlines :: "pystr \<Rightarrow> pystr" where
  "universal_newlines [] = []"
| "universal_newlines [c] = (if c = CR then [NL] else [c])"
| "universal_newlines (c # d # r) =
     (if c = CR then (if d = NL then NL # universal_newlines r else NL # universal_newlines (d # r))
      else c # universal_newlines (d # r))"

datatype exn = OSError | AttributeError | TypeError | KeyError

definition read_text :: "file_data \<Rightarrow> exn + pystr" where
  "read_text d = (case d of Unreadable \<Rightarrow> Inl OSError
                  | Bytes bs \<Rightarrow> Inr (universal_newlines (utf8_decode_ignore bs)))"

subsection \<open>Matching a file against the rules\<close>

text \<open>
  \<open>re.finditer(pattern, content, re.IGNORECASE | re.MULTILINE)\<close> belongs to the regular
  expression library, not to this program: the scanner takes it as a parameter that
  gives \<open>match.start()\<close> of every match, in the order the iterator yields them.
\<close>

type_synonym finditer = "string \<Rightarrow> pystr \<Rightarrow> nat list"

text \<open>
  The body of the inner loop of \<open>_check_patterns\<close>. The path is the one relative to the
  scan root, as \<open>str(file_path.relative_to(self.root))\<close> gives it for a file found by
  the walk below.
\<close>

definition make_finding ::
  "pystr \<Rightarrow> pystr list \<Rightarrow> pystr \<Rightarrow> string \<Rightarrow> string \<Rightarrow> string \<Rightarrow> Severity \<Rightarrow> string \<Rightarrow> nat
     \<Rightarrow> Finding" where
  "make_finding path lines content rid descr cat sev remed start =
     (let line_num = int (count_nl (take start content)) + 1;
          snippet = (if line_num \<le> int (length lines) then strip (lines ! nat (line_num - 1))
                     else [])
      in \<lparr>rule_id = rid, severity = sev, category = cat, description = descr,
          file_path = path, line_number = line_num, code_snippet = take 100 snippet,
          remediation = remed\<rparr>)"

fun check_matches ::
  "pystr \<Rightarrow> pystr list \<Rightarrow> pystr \<Rightarrow> string \<Rightarrow> string \<Rightarrow> string \<Rightarrow> Severity \<Rightarrow> string \<Rightarrow> nat list
     \<Rightarrow> ScanResult \<Rightarrow> ScanResult" where
  "check_matches path lines content rid descr cat sev remed [] r = r"
| "check_matches path lines content rid descr cat sev remed (start # starts) r =
     check_matches path lines content rid descr cat sev remed starts
       (add r (make_finding path lines content rid descr cat sev remed start))"

fun check_rules ::
  "finditer \<Rightarrow> pystr \<Rightarrow> pystr list \<Rightarrow> pystr \<Rightarrow> rule list \<Rightarrow> string \<Rightarrow> Severity \<Rightarrow> string
     \<Rightarrow> ScanResult \<Rightarrow> ScanResult" where
  "check_rules fi path lines content [] cat sev remed r = r"
| "check_rules fi path lines content ((pattern, rid, descr) # rules) cat sev remed r =
     check_rules fi path lines content rules cat sev remed
       (check_matches path lines content rid descr cat sev remed (fi pattern content) r)"

definition check_patterns ::
  "finditer \<Rightarrow> pystr \<Rightarrow> pystr list \<Rightarrow> rule list \<Rightarrow> string \<Rightarrow> Severity \<Rightarrow> string
     \<Rightarrow> ScanResult \<Rightarrow> ScanResult" where
  "check_patterns fi path lines patterns cat sev remed r =
     check_rules fi path lines (join_nl lines) patterns cat sev remed r"

text \<open>\<open>not checks or name in checks\<close>: an absent and an empty list both select everything.\<close>

definition selected :: "string list option \<Rightarrow> string \<Rightarrow> bool" where
  "selected checks name = (case checks of None \<Rightarrow> True | Some cs \<Rightarrow> cs = [] \<or> name \<in> set cs)"

text \<open>The loop over \<open>INJECTION_PATTERNS.items()\<close>.\<close>

fun check_injection ::
  "finditer \<Rightarrow> pystr \<Rightarrow> pystr list \<Rightarrow> (string \<times> rule list) list \<Rightarrow> ScanResult \<Rightarrow> ScanResult" where
  "check_injection fi path lines [] r = r"
| "check_injection fi path lines ((cat, patterns) # items) r =
     check_injection fi path lines items
       (check_patterns fi path lines patterns (''Injection ('' @ cat @ '')'')
          (if cat \<in> {''sql'', ''command''} then CRITICAL else HIGH)
          ''Use parameterized queries/safe APIs'' r)"

text \<open>
  \<open>_scan_file\<close>. Reading is the only step of the body that can raise; the handler
  swallows the exception and leaves the result as it was.
\<close>

definition scan_file ::
  "finditer \<Rightarrow> pystr \<Rightarrow> file_data \<Rightarrow> string list option \<Rightarrow> ScanResult \<Rightarrow> ScanResult" where
  "scan_file fi path d checks r =
     (case read_text d of
        Inl e \<Rightarrow> r
      | Inr content \<Rightarrow>
          (let lines = split_nl content;
               r1 = (if selected checks ''secrets''
                     then check_patterns fi path lines SECRETS_PATTERNS ''Secrets'' CRITICAL
                            ''Move secrets to environment variables or a secrets manager'' r
                     else r);
               r2 = (if selected checks ''injection''
                     then check_injection fi path lines INJECTION_PATTERNS r1 else r1);
               r3 = (if selected checks ''auth''
                     then check_patterns fi path lines AUTH_PATTERNS ''Authentication'' HIGH
                            ''See references/auth.md for secure patterns'' r2
                     else r2);
               r4 = (if selected checks ''crypto''
                     then check_patterns fi path lines CRYPTO_PATTERNS ''Cryptography'' HIGH
                            ''Use modern algorithms (AES-256, SHA-256, bcrypt)'' r3
                     else r3);
               r5 = (if selected checks ''cloud''
                     then check_patterns fi path lines CLOUD_PATTERNS ''Cloud/Infrastructure'' HIGH
                            ''See references/infrastructure.md'' r4
                     else r4)
           in if selected checks ''data''
              then check_patterns fi path lines DATA_PATTERNS ''Data Handling'' HIGH
                     ''Use safe deserialization methods'' r5
              else r5))"

subsection \<open>Walking the tree\<close>

text \<open>
  \<open>Path.suffix\<close>: the part of the name from its last dot on, when that dot is neither
  the first nor the last character.
\<close>

definition path_suffix :: "pystr \<Rightarrow> pystr" where
  "path_suffix name =
     (let after = takeWhile (\<lambda>c. c \<noteq> 46) (rev name)
      in if length after = length name then []
         else (let i = length name - length after - 1
               in if 0 < i \<and> i < length name - 1 then drop i name else []))"

definition is_candidate :: "pystr \<Rightarrow> bool" where
  "is_candidate name \<longleftrightarrow>
     lower_name (path_suffix name) \<in> set SCANNABLE_EXTENSIONS \<or>
     startswith name (text_of ''.env'')"

definition rel_path :: "pystr \<Rightarrow> pystr \<Rightarrow> pystr" where
  "rel_path base name = (if base = [] then name else base @ text_of ''/'' @ name)"

text \<open>The candidate files of one directory, in listing order.\<close>

fun files_in :: "pystr \<Rightarrow> node list \<Rightarrow> (pystr \<times> file_data) list" where
  "files_in base [] = []"
| "files_in base (File name d # es) =
     (if is_candidate name then (rel_path base name, d) # files_in base es
      else files_in base es)"
| "files_in base (Dir name sub # es) = files_in base es"

text \<open>
  \<open>os.walk\<close>, top down: the files of a directory come before those of its
  subdirectories, and a subdirectory named in \<open>SKIP_DIRS\<close> is pruned.
\<close>

fun descend :: "pystr \<Rightarrow> node list \<Rightarrow> (pystr \<times> file_data) list" where
  "descend base [] = []"
| "descend base (File name d # es) = descend base es"
| "descend base (Dir name sub # es) =
     (if name \<in> set SKIP_DIRS then []
      else files_in (rel_path base name) sub @ descend (rel_path base name) sub)
     @ descend base es"

definition get_files :: "node \<Rightarrow> (pystr \<times> file_data) list" where
  "get_files root = (case root of File name d \<Rightarrow> []
                     | Dir name es \<Rightarrow> files_in [] es @ descend [] es)"

text \<open>
  \<open>scan\<close>. \<open>_get_files\<close> is a generator that counts a file when it is resumed after
  the \<open>yield\<close>, that is after the loop body has scanned that file.
\<close>

fun scan_files ::
  "finditer \<Rightarrow> string list option \<Rightarrow> (pystr \<times> file_data) list \<Rightarrow> ScanResult \<Rightarrow> ScanResult" where
  "scan_files fi checks [] r = r"
| "scan_files fi checks ((path, d) # fs) r =
     (let r' = scan_file fi path d checks r
      in scan_files fi checks fs (r'\<lparr>files_scanned := files_scanned r' + 1\<rparr>))"

definition scan :: "finditer \<Rightarrow> node \<Rightarrow> string list option \<Rightarrow> ScanResult" where
  "scan fi root checks = scan_files fi checks (get_files root) new_ScanResult"

subsection \<open>Printing the results\<close>

text \<open>
  The JSON document \<open>print_results\<close> writes with \<open>--json\<close>, as \<open>json.loads\<close> gives it
  back to the report generator. Numbers are the integers the scripts write; none of
  the scripts writes a boolean or a fraction. A dictionary is the list of its items in
  insertion order, under the keys the scripts write, which are ASCII; a key occurs once.
\<close>

datatype json =
  JNull | JInt int | JStr pystr | JList "json list" | JDict "(string \<times> json) list"

definition finding_json :: "Finding \<Rightarrow> json" where
  "finding_json f =
     JDict [(''rule_id'', JStr (text_of (rule_id f))),
            (''severity'', JStr (text_of (severity_name (severity f)))),
            (''category'', JStr (text_of (category f))),
            (''description'', JStr (text_of (description f))),
            (''file'', JStr (file_path f)),
            (''line'', JInt (line_number f)),
            (''snippet'', JStr (code_snippet f)),
            (''remediation'', JStr (text_of (remediation f)))]"

definition json_output :: "ScanResult \<Rightarrow> json" where
  "json_output result =
     JDict [(''files_scanned'', JInt (files_scanned result)),
            (''total_findings'', JInt (int (length (findings result)))),
            (''critical'', JInt (int (length (get_by_severity result CRITICAL)))),
            (''high'', JInt (int (length (get_by_severity result HIGH)))),
            (''medium'', JInt (int (length (get_by_severity result MEDIUM)))),
            (''low'', JInt (int (length (get_by_severity result LOW)))),
            (''findings'', JList (map finding_json (findings result)))]"

text \<open>\<open>str(n)\<close> for an integer, as an f-string renders it.\<close>

function str_nat :: "nat \<Rightarrow> pystr" where
  "str_nat n = (if n < 10 then [48 + n] else str_nat (n div 10) @ [48 + n mod 10])"
  by pat_completeness auto
termination
  by (relation "measure id") auto

declare str_nat.simps [simp del]

definition str_int :: "int \<Rightarrow> pystr" where
  "str_int i = (if i < 0 then 45 # str_nat (nat (- i)) else str_nat (nat i))"

text \<open>
  The characters outside ASCII that the console report prints: a coloured circle for
  each severity, a check mark and a no-entry sign.
\<close>

fun icon :: "Severity \<Rightarrow> nat" where
  "icon CRITICAL = 0x1F534"
| "icon HIGH = 0x1F7E0"
| "icon MEDIUM = 0x1F7E1"
| "icon LOW = 0x1F535"

definition CHECK_MARK :: nat where "CHECK_MARK = 0x2705"
definition NO_ENTRY :: nat where "NO_ENTRY = 0x26D4"

text \<open>
  What one call of \<open>print\<close> is given: a text (the newline \<open>print\<close> adds is left out),
  or with \<open>--json\<close> the document that \<open>json.dumps\<close> renders.
\<close>

datatype printed = Line pystr | Document json

text \<open>The four calls that print one finding.\<close>

definition finding_lines :: "Finding \<Rightarrow> pystr list" where
  "finding_lines f =
     [NL # text_of ''['' @ text_of (rule_id f) @ text_of ''] '' @ text_of (description f),
      text_of ''  File: '' @ file_path f @ text_of '':'' @ str_int (line_number f),
      text_of ''  Code: '' @ code_snippet f,
      text_of ''  Fix:  '' @ text_of (remediation f)]"

text \<open>The body of the loop over the four severities.\<close>

definition severity_block :: "ScanResult \<Rightarrow> Severity \<Rightarrow> pystr list" where
  "severity_block result sev =
     (let fs = get_by_severity result sev
      in if fs \<noteq> []
         then [NL # icon sev # text_of '' '' @ text_of (severity_name sev) @
                 text_of '' FINDINGS ('' @ str_int (int (length fs)) @ text_of ''):'',
               replicate 50 45]
              @ concat (map finding_lines fs)
         else [])"

text \<open>The console output of \<open>print_results\<close>, call by call.\<close>

definition console_lines :: "ScanResult \<Rightarrow> pystr list" where
  "console_lines result =
     [NL # replicate 60 61,
      text_of ''VIBE SECURITY CHECKER - SCAN RESULTS'',
      replicate 60 61 @ [NL],
      text_of ''Files scanned: '' @ str_int (files_scanned result),
      text_of ''Total findings: '' @ str_int (int (length (findings result))) @ [NL],
      text_of ''SUMMARY BY SEVERITY:'',
      text_of ''  '' @ [icon CRITICAL] @ text_of '' CRITICAL: '' @
        str_int (int (length (get_by_severity result CRITICAL))),
      text_of ''  '' @ [icon HIGH] @ text_of '' HIGH:     '' @
        str_int (int (length (get_by_severity result HIGH))),
      text_of ''  '' @ [icon MEDIUM] @ text_of '' MEDIUM:   '' @
        str_int (int (length (get_by_severity result MEDIUM))),
      text_of ''  '' @ [icon LOW] @ text_of '' LOW:      '' @
        str_int (int (length (get_by_severity result LOW))),
      []]
     @ concat (map (severity_block result) [CRITICAL, HIGH, MEDIUM, LOW])
     @ (if findings result = [] then [CHECK_MARK # text_of '' No security issues found!'']
        else if has_critical result
        then [NL # NO_ENTRY # text_of '' '' @
                str_int (int (length (get_by_severity result CRITICAL))) @
                text_of '' CRITICAL issues must be fixed before deployment!'']
        else [])"

definition print_results :: "ScanResult \<Rightarrow> bool \<Rightarrow> printed list" where
  "print_results result as_json =
     (if as_json then [Document (json_output result)] else map Line (console_lines result))"

text \<open>
  Standard output encodes what \<open>print\<close> writes, with the strict error handler: a
  character it cannot encode raises \<open>UnicodeEncodeError\<close> and nothing of that call is
  written. Which characters it can encode depends on the environment (UTF-8 has every
  character but the lone surrogates, cp1252 has none of the icons above). ASCII is
  taken to be encodable, as it is in the encodings a terminal or a pipe has;
  \<open>json.dumps\<close> escapes everything else, so a document is always written. Writing
  the encoded bytes is taken to succeed.
\<close>

type_synonym encoder = "nat \<Rightarrow> bool"

definition encodable :: "encoder \<Rightarrow> pystr \<Rightarrow> bool" where
  "encodable enc s = list_all (\<lambda>c. c < 128 \<or> enc c) s"

fun accepted :: "encoder \<Rightarrow> printed \<Rightarrow> bool" where
  "accepted enc (Line s) = encodable enc s"
| "accepted enc (Document j) = True"

subsection \<open>The command line\<close>

text \<open>
  The parsed arguments. \<open>--severity\<close> admits the four lower-case names only, and
  \<open>Severity[args.severity.upper()]\<close> is the member of that name, so the field holds the
  member. \<open>--check\<close> is absent or a non-empty list.
\<close>

record scan_args =
  arg_path :: pystr
  arg_check :: "string list option"
  arg_full :: bool
  arg_json :: bool
  arg_severity :: "Severity option"
  arg_fail_on_findings :: bool

text \<open>The severity filter of \<open>main\<close>.\<close>

definition filter_severity :: "Severity \<Rightarrow> Finding list \<Rightarrow> Finding list" where
  "filter_severity min_severity fs =
     [f \<leftarrow> fs. severity_value (severity f) \<ge> severity_value min_severity]"

text \<open>
  What a run leaves behind: what reached standard output, the exit status, and the
  result of the scan if one ran.
\<close>

record scan_outcome =
  stdout :: "printed list"
  exit_code :: int
  scanned :: "ScanResult option"

text \<open>
  \<open>main\<close>; the target is what the file system holds at \<open>args.path\<close>, if anything.
  \<open>main_result\<close> is the scan and the severity filter, \<open>scan_main\<close> the whole run. No
  call of \<open>print\<close> stands inside a \<open>try\<close>: the first one that fails ends the process
  with a traceback and status 1, whatever the flags.
\<close>

definition main_result :: "finditer \<Rightarrow> node \<Rightarrow> scan_args \<Rightarrow> ScanResult" where
  "main_result fi root args =
     (let checks = (if arg_full args then None else arg_check args);
          result = scan fi root checks
      in case arg_severity args of
           Some min_severity \<Rightarrow>
             result\<lparr>findings := filter_severity min_severity (findings result)\<rparr>
         | None \<Rightarrow> result)"

definition scan_main :: "encoder \<Rightarrow> finditer \<Rightarrow> node option \<Rightarrow> scan_args \<Rightarrow> scan_outcome" where
  "scan_main enc fi target args =
     (case target of
        None \<Rightarrow>
          \<lparr>stdout =
             takeWhile (accepted enc)
               [Line (text_of ''Error: Path '' @ [39] @ arg_path args @ [39] @
                      text_of '' does not exist'')],
           exit_code = 1, scanned = None\<rparr>
      | Some root \<Rightarrow>
          (let result = main_result fi root args;
               out = print_results result (arg_json args)
           in \<lparr>stdout = takeWhile (accepted enc) out,
               exit_code =
                 (if list_all (accepted enc) out
                  then (if arg_fail_on_findings args \<and> findings result \<noteq> [] then 1 else 0)
                  else 1),
               scanned = Some result\<rparr>))"

section \<open>The dependency checker (check_dependencies.py)\<close>

subsection \<open>Reputation tables\<close>

text \<open>The two dictionaries, keyed by ecosystem; only the two literal keys are ever used.\<close>

definition HALLUCINATED_PACKAGES :: "string \<Rightarrow> string list" where
  "HALLUCINATED_PACKAGES eco =
     (if eco = ''python'' then
        [''huggingface-cli'', ''flask-security-utils'', ''django-rest-utils'',
         ''pytorch-utils'', ''tensorflow-utils'', ''numpy-tools'', ''pandas-utils'',
         ''scikit-utils'', ''aws-sdk'', ''google-cloud-utils'', ''openai-utils'',
         ''langchain-utils'']
      else if eco = ''npm'' then
        [''react-utils'', ''vue-utils'', ''next-utils'', ''express-utils'', ''node-utils'',
         ''typescript-utils'', ''mongodb-utils'', ''postgres-utils'', ''aws-sdk-utils'',
         ''stripe-utils'']
      else [])"

definition VULNERABLE_PACKAGES :: "string \<Rightarrow> (string \<times> (string \<times> string) list) list" where
  "VULNERABLE_PACKAGES eco =
     (if eco = ''python'' then
        [(''pyyaml'', [(''< 5.4'', ''CVE-2020-14343 - Arbitrary code execution'')]),
         (''urllib3'', [(''< 1.26.5'', ''CVE-2021-33503 - ReDoS'')]),
         (''requests'', [(''< 2.31.0'', ''CVE-2023-32681 - Header injection'')]),
         (''cryptography'', [(''< 41.0.0'', ''Multiple CVEs'')]),
         (''pillow'', [(''< 10.0.1'', ''CVE-2023-44271 - DoS'')]),
         (''django'', [(''< 4.2.4'', ''Multiple security fixes'')]),
         (''flask'', [(''< 2.3.2'', ''Security updates'')]),
         (''jinja2'', [(''< 3.1.2'', ''XSS vulnerability'')]),
         (''werkzeug'', [(''< 2.3.7'', ''Security updates'')]),
         (''numpy'', [(''< 1.22.0'', ''Buffer overflow'')])]
      else if eco = ''npm'' then
        [(''lodash'', [(''< 4.17.21'', ''CVE-2021-23337 - Command injection'')]),
         (''axios'', [(''< 1.6.0'', ''SSRF vulnerability'')]),
         (''express'', [(''< 4.18.2'', ''Multiple security fixes'')]),
         (''jsonwebtoken'', [(''< 9.0.0'', ''Multiple CVEs'')]),
         (''mongoose'', [(''< 6.10.0'', ''Prototype pollution'')]),
         (''sequelize'', [(''< 6.29.0'', ''SQL injection'')]),
         (''minimist'', [(''< 1.2.6'', ''Prototype pollution'')]),
         (''node-fetch'', [(''< 3.3.0'', ''Security updates'')]),
         (''got'', [(''< 11.8.5'', ''Security updates'')]),
         (''ws'', [(''< 8.11.0'', ''ReDoS'')])]
      else [])"

subsection \<open>Findings and the two package checks\<close>

text \<open>
  \<open>DependencyFinding\<close>. Four of its fields share their names with fields of \<open>Finding\<close>
  and carry the prefix \<open>dep_\<close> here; the severity is a string in this script.
\<close>

record DependencyFinding =
  package :: string
  version :: "string option"
  issue_type :: string
  dep_severity :: string
  dep_description :: string
  dep_file_path :: string
  dep_remediation :: string

definition hallucinated_finding ::
  "string \<Rightarrow> string option \<Rightarrow> string \<Rightarrow> string \<Rightarrow> DependencyFinding" where
  \<open>hallucinated_finding pkg ver path remed =
     \<lparr>package = pkg, version = ver, issue_type = ''hallucinated'', dep_severity = ''CRITICAL'',
      dep_description =
        ''Package "'' @ pkg @ ''" is commonly hallucinated by AI and may not exist'',
      dep_file_path = path, dep_remediation = remed\<rparr>\<close>

definition vulnerable_finding ::
  "string \<Rightarrow> string option \<Rightarrow> string \<Rightarrow> string \<Rightarrow> string \<times> string \<Rightarrow> DependencyFinding" where
  "vulnerable_finding pkg ver path remed entry =
     (case entry of (vuln_version, cve_info) \<Rightarrow>
        \<lparr>package = pkg, version = ver, issue_type = ''vulnerable'', dep_severity = ''HIGH'',
         dep_description = pkg @ '' '' @ vuln_version @ '': '' @ cve_info,
         dep_file_path = path, dep_remediation = remed\<rparr>)"

definition suspicious_finding :: "string \<Rightarrow> string \<Rightarrow> string \<Rightarrow> DependencyFinding" where
  \<open>suspicious_finding pkg ver path =
     \<lparr>package = pkg, version = Some ver, issue_type = ''suspicious'', dep_severity = ''MEDIUM'',
      dep_description = ''Package "'' @ pkg @ ''" uses unpinned version "'' @ ver @ ''"'',
      dep_file_path = path,
      dep_remediation = ''Pin to specific version: npm install pkg@x.y.z --save-exact''\<rparr>\<close>

text \<open>The loop over the advisories catalogued for one package name.\<close>

fun add_vulnerable ::
  "string \<Rightarrow> string option \<Rightarrow> string \<Rightarrow> string \<Rightarrow> (string \<times> string) list
     \<Rightarrow> DependencyFinding list \<Rightarrow> DependencyFinding list" where
  "add_vulnerable pkg ver path remed [] fs = fs"
| "add_vulnerable pkg ver path remed (entry # entries) fs =
     add_vulnerable pkg ver path remed entries (fs @ [vulnerable_finding pkg ver path remed entry])"

text \<open>\<open>_check_python_package\<close> and \<open>_check_npm_package\<close> append to \<open>self.findings\<close>.\<close>

definition check_python_package ::
  "string \<Rightarrow> string option \<Rightarrow> string \<Rightarrow> DependencyFinding list \<Rightarrow> DependencyFinding list" where
  "check_python_package pkg ver path fs =
     (let pkg_lower = lower pkg;
          fs1 = (if pkg_lower \<in> set (HALLUCINATED_PACKAGES ''python'')
                 then fs @ [hallucinated_finding pkg ver path
                              ''Verify package exists on PyPI: pip search or visit pypi.org'']
                 else fs)
      in case map_of (VULNERABLE_PACKAGES ''python'') pkg_lower of
           Some entries \<Rightarrow>
             add_vulnerable pkg ver path (''Update '' @ pkg @ '' to latest version'') entries fs1
         | None \<Rightarrow> fs1)"

definition check_npm_package ::
  "string \<Rightarrow> string \<Rightarrow> string \<Rightarrow> DependencyFinding list \<Rightarrow> DependencyFinding list" where
  "check_npm_package pkg ver path fs =
     (let pkg_lower = lower pkg;
          fs1 = (if pkg_lower \<in> set (HALLUCINATED_PACKAGES ''npm'')
                 then fs @ [hallucinated_finding pkg (Some ver) path
                              ''Verify package exists on npm: npm view or visit npmjs.com'']
                 else fs);
          fs2 = (case map_of (VULNERABLE_PACKAGES ''npm'') pkg_lower of
                   Some entries \<Rightarrow>
                     add_vulnerable pkg (Some ver) path (''Run: npm update '' @ pkg) entries fs1
                 | None \<Rightarrow> fs1)
      in if ver \<in> set [''*'', ''latest'', ''''] then fs2 @ [suspicious_finding pkg ver path]
         else fs2)"

subsection \<open>Manifests\<close>

text \<open>
  A \<open>package.json\<close> after \<open>json.loads\<close>: an object whose \<open>dependencies\<close> and
  \<open>devDependencies\<close> entries map names to version strings, or hold something without
  \<open>items()\<close>. \<open>Malformed\<close> stands for a file that cannot be read or parsed, or whose
  document is not an object: the handler swallows what is raised then.
\<close>

datatype deps_value = DepsDict "(string \<times> string) list" | DepsOther

datatype manifest = Malformed | Object "(string \<times> deps_value) list"

fun check_npm_packages ::
  "(string \<times> string) list \<Rightarrow> string \<Rightarrow> DependencyFinding list \<Rightarrow> DependencyFinding list" where
  "check_npm_packages [] path fs = fs"
| "check_npm_packages ((pkg, ver) # deps) path fs =
     check_npm_packages deps path (check_npm_package pkg ver path fs)"

text \<open>
  The loop over the two dependency sections of one manifest. A section without
  \<open>items()\<close> raises; the handler ends the work on this manifest and keeps what was
  appended before.
\<close>

fun check_dep_types ::
  "(string \<times> deps_value) list \<Rightarrow> string \<Rightarrow> string list \<Rightarrow> DependencyFinding list
     \<Rightarrow> DependencyFinding list" where
  "check_dep_types content path [] fs = fs"
| "check_dep_types content path (dep_type # dep_types) fs =
     (case map_of content dep_type of
        None \<Rightarrow> check_dep_types content path dep_types fs
      | Some (DepsDict deps) \<Rightarrow>
          check_dep_types content path dep_types (check_npm_packages deps path fs)
      | Some DepsOther \<Rightarrow> fs)"

text \<open>\<open>'node_modules' in str(pkg_file)\<close>: a substring test on the whole path.\<close>

fun contains :: "'a list \<Rightarrow> 'a list \<Rightarrow> bool" where
  "contains [] sub = (sub = [])"
| "contains (c # cs) sub = (startswith (c # cs) sub \<or> contains cs sub)"

text \<open>
  \<open>_check_package_json\<close> over the manifests the glob finds: each with its full path,
  its path relative to the root and its parsed content.
\<close>

fun check_package_json ::
  "(string \<times> string \<times> manifest) list \<Rightarrow> DependencyFinding list \<Rightarrow> DependencyFinding list" where
  "check_package_json [] fs = fs"
| "check_package_json ((full, rel, m) # ms) fs =
     check_package_json ms
       (if contains full ''node_modules'' then fs
        else (case m of
                Malformed \<Rightarrow> fs
              | Object content \<Rightarrow>
                  check_dep_types content rel [''dependencies'', ''devDependencies''] fs))"

text \<open>
  \<open>_check_requirements_files\<close>, from the mapping the two parsers extract from each
  file (\<open>None\<close> when reading or parsing raised); the parsers themselves are outside
  this development.
\<close>

fun check_python_packages ::
  "(string \<times> string option) list \<Rightarrow> string \<Rightarrow> DependencyFinding list \<Rightarrow> DependencyFinding list" where
  "check_python_packages [] path fs = fs"
| "check_python_packages ((pkg, ver) # pkgs) path fs =
     check_python_packages pkgs path (check_python_package pkg ver path fs)"

fun check_requirements_files ::
  "(string \<times> string \<times> (string \<times> string option) list option) list \<Rightarrow> DependencyFinding list
     \<Rightarrow> DependencyFinding list" where
  "check_requirements_files [] fs = fs"
| "check_requirements_files ((full, rel, parsed) # rs) fs =
     check_requirements_files rs
       (if contains full ''node_modules'' \<or> contains full ''.venv'' then fs
        else (case parsed of None \<Rightarrow> fs
              | Some packages \<Rightarrow> check_python_packages packages rel fs))"

text \<open>
  What the checker finds under an existing root: the findings the two audit tools
  contribute (none when a tool is missing, fails or times out), and the manifests.
\<close>

record dep_tree =
  pip_audit :: "DependencyFinding list"
  npm_audit :: "DependencyFinding list"
  requirements :: "(string \<times> string \<times> (string \<times> string option) list option) list"
  package_jsons :: "(string \<times> string \<times> manifest) list"

definition check :: "dep_tree \<Rightarrow> DependencyFinding list" where
  "check t =
     check_package_json (package_jsons t)
       (check_requirements_files (requirements t) (pip_audit t @ npm_audit t))"

definition dep_finding_json :: "DependencyFinding \<Rightarrow> json" where
  "dep_finding_json f =
     JDict [(''package'', JStr (text_of (package f))),
            (''version'', (case version f of None \<Rightarrow> JNull | Some v \<Rightarrow> JStr (text_of v))),
            (''type'', JStr (text_of (issue_type f))),
            (''severity'', JStr (text_of (dep_severity f))),
            (''description'', JStr (text_of (dep_description f))),
            (''file'', JStr (text_of (dep_file_path f))),
            (''remediation'', JStr (text_of (dep_remediation f)))]"

definition dep_json_output :: "DependencyFinding list \<Rightarrow> json" where
  "dep_json_output fs =
     JDict [(''total_findings'', JInt (int (length fs))),
            (''findings'', JList (map dep_finding_json fs))]"

record dep_args =
  dep_arg_path :: string
  dep_arg_json :: bool
  dep_arg_fail_on_findings :: bool

datatype dep_printed = DepErrorMessage string | DepResults "DependencyFinding list" bool

record dep_outcome =
  dep_stdout :: "dep_printed list"
  dep_exit_code :: int
  dep_checked :: "DependencyFinding list option"

definition dep_main :: "dep_tree option \<Rightarrow> dep_args \<Rightarrow> dep_outcome" where
  "dep_main target args =
     (case target of
        None \<Rightarrow>
          \<lparr>dep_stdout =
             [DepErrorMessage (''Error: Path '' @ sq @ dep_arg_path args @ sq @ '' does not exist'')],
           dep_exit_code = 1, dep_checked = None\<rparr>
      | Some t \<Rightarrow>
          (let fs = check t
           in \<lparr>dep_stdout = [DepResults fs (dep_arg_json args)],
               dep_exit_code = (if dep_arg_fail_on_findings args \<and> fs \<noteq> [] then 1 else 0),
               dep_checked = Some fs\<rparr>))"

section \<open>The report generator (generate_report.py)\<close>

text \<open>
  The dictionary \<open>run_all_checks\<close> returns. Each of the three sections is the document
  its script printed, \<open>{'error': ...}\<close> when running it raised, or \<open>None\<close> (\<open>JNull\<close>)
  when it exited with a non-zero status.
\<close>

record results =
  scan_date :: string
  project_path :: pystr
  project_info :: json
  security_findings :: json
  dependency_findings :: json

text \<open>
  The document \<open>detect_project.py\<close> prints with \<open>--json\<close> for the \<open>ProjectInfo\<close> it
  detected.
\<close>

record ProjectInfo =
  project_type :: string
  frameworks :: "string list"
  languages :: "string list"
  databases :: "string list"
  cloud_services :: "string list"
  ai_tool_indicators :: "string list"
  recommended_checks :: "string list"

definition strings_json :: "string list \<Rightarrow> json" where
  "strings_json xs = JList (map (\<lambda>x. JStr (text_of x)) xs)"

definition project_json :: "ProjectInfo \<Rightarrow> json" where
  "project_json info =
     JDict [(''project_type'', JStr (text_of (project_type info))),
            (''frameworks'', strings_json (frameworks info)),
            (''languages'', strings_json (languages info)),
            (''databases'', strings_json (databases info)),
            (''cloud_services'', strings_json (cloud_services info)),
            (''ai_tool_indicators'', strings_json (ai_tool_indicators info)),
            (''recommended_checks'', strings_json (recommended_checks info))]"

subsection \<open>Operations on parsed documents\<close>

text \<open>An exception raised by a step ends the function; otherwise the next step runs.\<close>

definition and_then :: "exn + 'a \<Rightarrow> ('a \<Rightarrow> exn + 'b) \<Rightarrow> exn + 'b" where
  "and_then x f = (case x of Inl e \<Rightarrow> Inl e | Inr v \<Rightarrow> f v)"

text \<open>The truth value of an object in a condition.\<close>

fun truthy :: "json \<Rightarrow> bool" where
  "truthy JNull = False"
| "truthy (JInt n) = (n \<noteq> 0)"
| "truthy (JStr s) = (s \<noteq> [])"
| "truthy (JList xs) = (xs \<noteq> [])"
| "truthy (JDict kvs) = (kvs \<noteq> [])"

text \<open>\<open>obj.get(key, default)\<close>: only a dictionary has the method.\<close>

fun jget :: "json \<Rightarrow> string \<Rightarrow> json \<Rightarrow> exn + json" where
  "jget (JDict kvs) k d = Inr (case map_of kvs k of Some v \<Rightarrow> v | None \<Rightarrow> d)"
| "jget j k d = Inl AttributeError"

text \<open>
  \<open>obj[key]\<close> with a string key: a dictionary without the key raises \<open>KeyError\<close>,
  anything else cannot be indexed by a string and raises \<open>TypeError\<close>.
\<close>

fun jindex :: "json \<Rightarrow> string \<Rightarrow> exn + json" where
  "jindex (JDict kvs) k = (case map_of kvs k of Some v \<Rightarrow> Inr v | None \<Rightarrow> Inl KeyError)"
| "jindex j k = Inl TypeError"

text \<open>
  Iterating over an object: the elements of a list, the characters of a string, the
  keys of a dictionary; \<open>None\<close> and a number are not iterable.
\<close>

fun jiter :: "json \<Rightarrow> exn + json list" where
  "jiter (JList xs) = Inr xs"
| "jiter (JStr s) = Inr (map (\<lambda>c. JStr [c]) s)"
| "jiter (JDict kvs) = Inr (map (\<lambda>kv. JStr (text_of (fst kv))) kvs)"
| "jiter j = Inl TypeError"

text \<open>\<open>key in obj\<close> for a string key.\<close>

fun jcontains :: "json \<Rightarrow> string \<Rightarrow> exn + bool" where
  "jcontains (JDict kvs) k = Inr (k \<in> set (map fst kvs))"
| "jcontains (JList xs) k = Inr (JStr (text_of k) \<in> set xs)"
| "jcontains (JStr s) k = Inr (contains s (text_of k))"
| "jcontains j k = Inl TypeError"

text \<open>\<open>', '.join(obj)\<close>: every item must be a string.\<close>

fun the_text :: "json \<Rightarrow> pystr option" where
  "the_text (JStr s) = Some s"
| "the_text j = None"

fun join_comma :: "pystr list \<Rightarrow> pystr" where
  "join_comma [] = []"
| "join_comma [x] = x"
| "join_comma (x # xs) = x @ text_of '', '' @ join_comma xs"

definition jjoin :: "json \<Rightarrow> exn + pystr" where
  "jjoin obj =
     and_then (jiter obj) (\<lambda>items.
       if list_all (\<lambda>x. the_text x \<noteq> None) items
       then Inr (join_comma (map (\<lambda>x. case the_text x of Some s \<Rightarrow> s | None \<Rightarrow> []) items))
       else Inl TypeError)"

text \<open>\<open>x > 0\<close>: only a number compares with one.\<close>

fun positive :: "json \<Rightarrow> exn + bool" where
  "positive (JInt n) = Inr (0 < n)"
| "positive j = Inl TypeError"

text \<open>A loop whose body may raise: the first exception ends it.\<close>

fun each :: "('a \<Rightarrow> exn + unit) \<Rightarrow> 'a list \<Rightarrow> exn + unit" where
  "each body [] = Inr ()"
| "each body (x # xs) = and_then (body x) (\<lambda>u. each body xs)"

subsection \<open>The markdown report\<close>

datatype verdict = BLOCKED | ACTION_REQUIRED | REVIEW | PASSED

text \<open>
  What \<open>generate_markdown_report\<close> puts into the text it returns: the headline of the
  executive summary, the rows of the summary table, whether the project analysis is
  shown, the security findings listed under each severity, the dependency findings
  listed, and the two immediate actions.
\<close>

record report =
  verdict :: verdict
  critical :: json
  high :: json
  medium :: json
  low :: json
  dep_total :: json
  project_shown :: bool
  security_listed :: "(string \<times> json list) list"
  dependencies_listed :: "json list"
  fix_critical :: bool
  address_high :: bool

text \<open>The headline of the executive summary, from the counts read before it.\<close>

definition headline :: "json \<Rightarrow> json \<Rightarrow> json \<Rightarrow> exn + verdict" where
  "headline c h m =
     and_then (positive c) (\<lambda>is_critical.
       if is_critical then Inr BLOCKED
       else and_then (positive h) (\<lambda>is_high.
         if is_high then Inr ACTION_REQUIRED
         else and_then (positive m) (\<lambda>is_medium.
           if is_medium then Inr REVIEW else Inr PASSED)))"

text \<open>The project analysis: shown for a non-empty document without the key \<open>error\<close>.\<close>

definition project_section :: "json \<Rightarrow> exn + bool" where
  "project_section proj =
     (if truthy proj
      then and_then (jcontains proj ''error'') (\<lambda>has_error.
        if has_error then Inr False
        else
          and_then (jget proj ''project_type'' (JStr (text_of ''Unknown''))) (\<lambda>t.
          and_then (and_then (jget proj ''languages'' (JList [])) jjoin) (\<lambda>langs.
          and_then (and_then (jget proj ''frameworks'' (JList [])) jjoin) (\<lambda>fws.
          and_then (and_then (jget proj ''databases'' (JList [])) jjoin) (\<lambda>dbs.
          and_then (and_then (jget proj ''cloud_services'' (JList [])) jjoin) (\<lambda>cloud.
          and_then (jget proj ''ai_tool_indicators'' (JList [])) (\<lambda>ai_tools.
            if truthy ai_tools then and_then (jjoin ai_tools) (\<lambda>tools. Inr True)
            else Inr True)))))))
      else Inr False)"

text \<open>\<open>[f for f in sec['findings'] if f['severity'] == severity]\<close>.\<close>

fun select_severity :: "string \<Rightarrow> json list \<Rightarrow> exn + json list" where
  "select_severity sev [] = Inr []"
| "select_severity sev (f # fs) =
     and_then (jindex f ''severity'') (\<lambda>s.
     and_then (select_severity sev fs) (\<lambda>rest.
       Inr (if s = JStr (text_of sev) then f # rest else rest)))"

text \<open>The four lines written for one security finding read six of its keys.\<close>

definition render_finding :: "json \<Rightarrow> exn + unit" where
  "render_finding f =
     and_then (jindex f ''rule_id'') (\<lambda>rid.
     and_then (jindex f ''description'') (\<lambda>descr.
     and_then (jindex f ''file'') (\<lambda>file.
     and_then (jindex f ''line'') (\<lambda>line.
     and_then (jindex f ''snippet'') (\<lambda>snippet.
     and_then (jindex f ''remediation'') (\<lambda>remed. Inr ()))))))"

text \<open>The loop over the four severity names.\<close>

fun severity_groups :: "json \<Rightarrow> string list \<Rightarrow> exn + (string \<times> json list) list" where
  "severity_groups sec [] = Inr []"
| "severity_groups sec (sev # sevs) =
     and_then (jindex sec ''findings'') (\<lambda>fs.
     and_then (jiter fs) (\<lambda>items.
     and_then (select_severity sev items) (\<lambda>chosen.
     and_then (if chosen \<noteq> [] then each render_finding chosen else Inr ()) (\<lambda>u.
     and_then (severity_groups sec sevs) (\<lambda>rest.
       Inr (if chosen \<noteq> [] then (sev, chosen) # rest else rest))))))"

definition security_section :: "json \<Rightarrow> exn + (string \<times> json list) list" where
  "security_section sec =
     and_then (jget sec ''findings'' JNull) (\<lambda>fs.
       if truthy fs then severity_groups sec [''CRITICAL'', ''HIGH'', ''MEDIUM'', ''LOW'']
       else Inr [])"

text \<open>
  The icon of a dependency finding is looked up in a dictionary with the three keys
  CRITICAL, HIGH and MEDIUM: any other hashable value raises \<open>KeyError\<close>, a list or a
  dictionary cannot be hashed and raises \<open>TypeError\<close>.
\<close>

fun dependency_icon :: "json \<Rightarrow> exn + nat" where
  "dependency_icon (JStr s) =
     (if s = text_of ''CRITICAL'' then Inr (icon CRITICAL)
      else if s = text_of ''HIGH'' then Inr (icon HIGH)
      else if s = text_of ''MEDIUM'' then Inr (icon MEDIUM)
      else Inl KeyError)"
| "dependency_icon (JList xs) = Inl TypeError"
| "dependency_icon (JDict kvs) = Inl TypeError"
| "dependency_icon j = Inl KeyError"

definition render_dependency :: "json \<Rightarrow> exn + unit" where
  "render_dependency f =
     and_then (jindex f ''severity'') (\<lambda>sev.
     and_then (dependency_icon sev) (\<lambda>i.
     and_then (jindex f ''package'') (\<lambda>pkg.
     and_then (jindex f ''type'') (\<lambda>ty.
     and_then (jget f ''version'' (JStr (text_of ''Unknown''))) (\<lambda>ver.
     and_then (jindex f ''description'') (\<lambda>descr.
     and_then (jindex f ''file'') (\<lambda>file.
     and_then (jindex f ''remediation'') (\<lambda>remed. Inr ()))))))))"

definition dependency_section :: "json \<Rightarrow> exn + json list" where
  "dependency_section dep =
     and_then (jget dep ''findings'' JNull) (\<lambda>fs.
       if truthy fs
       then and_then (jindex dep ''findings'') (\<lambda>found.
            and_then (jiter found) (\<lambda>items.
            and_then (each render_dependency items) (\<lambda>u. Inr items)))
       else Inr [])"

text \<open>
  \<open>generate_markdown_report\<close>, step by step: the five counts, the headline, the project
  analysis, the security findings, the dependency findings, the two immediate actions.
  Formatting a value into a line cannot raise and is left out.
\<close>

definition generate_markdown_report :: "results \<Rightarrow> exn + report" where
  "generate_markdown_report res =
     (let sec = security_findings res; dep = dependency_findings res
      in and_then (jget sec ''critical'' (JInt 0)) (\<lambda>c.
         and_then (jget sec ''high'' (JInt 0)) (\<lambda>h.
         and_then (jget sec ''medium'' (JInt 0)) (\<lambda>m.
         and_then (jget sec ''low'' (JInt 0)) (\<lambda>l.
         and_then (jget dep ''total_findings'' (JInt 0)) (\<lambda>t.
         and_then (headline c h m) (\<lambda>v.
         and_then (project_section (project_info res)) (\<lambda>shown.
         and_then (security_section sec) (\<lambda>listed.
         and_then (dependency_section dep) (\<lambda>deps.
         and_then (positive c) (\<lambda>fix.
         and_then (positive h) (\<lambda>address.
           Inr \<lparr>verdict = v, critical = c, high = h, medium = m, low = l, dep_total = t,
                project_shown = shown, security_listed = listed,
                dependencies_listed = deps, fix_critical = fix,
                address_high = address\<rparr>))))))))))))"

text \<open>
  \<open>main\<close> of the report generator. What it does once the path exists (running the
  three scripts, rendering, writing) is passed in as the outcome that has.
\<close>

record report_args =
  report_arg_path :: string
  report_arg_format :: string
  report_arg_output :: "string option"

record report_outcome =
  report_stdout :: "string list"
  report_exit_code :: int
  checks_run :: bool

definition report_main :: "bool \<Rightarrow> report_args \<Rightarrow> report_outcome \<Rightarrow> report_outcome" where
  "report_main path_exists args rest =
     (if \<not> path_exists
      then \<lparr>report_stdout = [''Error: Path '' @ sq @ report_arg_path args @ sq @ '' does not exist''],
            report_exit_code = 0, checks_run = False\<rparr>
      else rest)"

section \<open>Vocabulary for the proofs and concrete inputs\<close>

text \<open>
  The findings one rule table, the injection tables and a whole file add to a result,
  as lists: the scanner's loops are shown below to append exactly these.
\<close>

definition rule_hits ::
  "finditer \<Rightarrow> pystr \<Rightarrow> pystr \<Rightarrow> rule list \<Rightarrow> string \<Rightarrow> Severity \<Rightarrow> string \<Rightarrow> Finding list" where
  "rule_hits fi path content rules cat sev remed =
     concat (map (\<lambda>(pattern, rid, descr).
                    map (make_finding path (split_nl content) content rid descr cat sev remed)
                      (fi pattern content)) rules)"

definition injection_hits ::
  "finditer \<Rightarrow> pystr \<Rightarrow> pystr \<Rightarrow> (string \<times> rule list) list \<Rightarrow> Finding list" where
  "injection_hits fi path content items =
     concat (map (\<lambda>(cat, rules).
                    rule_hits fi path content rules (''Injection ('' @ cat @ '')'')
                      (if cat \<in> {''sql'', ''command''} then CRITICAL else HIGH)
                      ''Use parameterized queries/safe APIs'') items)"

definition file_hits :: "finditer \<Rightarrow> pystr \<Rightarrow> pystr \<Rightarrow> string list option \<Rightarrow> Finding list" where
  "file_hits fi path content checks =
     (if selected checks ''secrets''
      then rule_hits fi path content SECRETS_PATTERNS ''Secrets'' CRITICAL
             ''Move secrets to environment variables or a secrets manager'' else []) @
     (if selected checks ''injection''
      then injection_hits fi path content INJECTION_PATTERNS else []) @
     (if selected checks ''auth''
      then rule_hits fi path content AUTH_PATTERNS ''Authentication'' HIGH
             ''See references/auth.md for secure patterns'' else []) @
     (if selected checks ''crypto''
      then rule_hits fi path content CRYPTO_PATTERNS ''Cryptography'' HIGH
             ''Use modern algorithms (AES-256, SHA-256, bcrypt)'' else []) @
     (if selected checks ''cloud''
      then rule_hits fi path content CLOUD_PATTERNS ''Cloud/Infrastructure'' HIGH
             ''See references/infrastructure.md'' else []) @
     (if selected checks ''data''
      then rule_hits fi path content DATA_PATTERNS ''Data Handling'' HIGH
             ''Use safe deserialization methods'' else [])"

text \<open>
  A matcher to run the scanner on concrete texts: it reports the places where the text
  reads \<open>os.system(\<close> for the rule INJ-010 and nothing for any other rule. On the texts
  used below that is what \<open>re.finditer\<close> reports: none of them matches another rule.
\<close>

definition os_system_pattern :: string where
  "os_system_pattern = ''os'' @ bsl @ ''.system'' @ bsl @ ''s*'' @ bsl @ ''(''"

definition os_system_call :: pystr where
  "os_system_call = [111, 115, 46, 115, 121, 115, 116, 101, 109, 40]"

fun find_literal :: "pystr \<Rightarrow> pystr \<Rightarrow> nat \<Rightarrow> nat list" where
  "find_literal lit [] i = []"
| "find_literal lit (c # cs) i =
     (if take (length lit) (c # cs) = lit then i # find_literal lit cs (Suc i)
      else find_literal lit cs (Suc i))"

definition demo_finditer :: finditer where
  "demo_finditer pattern content =
     (if pattern = os_system_pattern then find_literal os_system_call content 0 else [])"

text \<open>
  The rules of the categories a restriction selects, in the order \<open>_scan_file\<close> applies
  them.
\<close>

definition selected_rules :: "string list option \<Rightarrow> rule list" where
  "selected_rules checks =
     (if selected checks ''secrets'' then SECRETS_PATTERNS else []) @
     (if selected checks ''injection'' then concat (map snd INJECTION_PATTERNS) else []) @
     (if selected checks ''auth'' then AUTH_PATTERNS else []) @
     (if selected checks ''crypto'' then CRYPTO_PATTERNS else []) @
     (if selected checks ''cloud'' then CLOUD_PATTERNS else []) @
     (if selected checks ''data'' then DATA_PATTERNS else [])"

text \<open>
  Three files named \<open>app.py\<close>, each alone in a directory: one that cannot be read, one
  made of two bytes that are not UTF-8, and one that holds the byte 0xFF followed by
  the ASCII text \<open>os.system(\<close>.
\<close>

definition app_py :: pystr where
  "app_py = [97, 112, 112, 46, 112, 121]"

definition unreadable_tree :: node where
  "unreadable_tree = Dir (text_of ''proj'') [File app_py Unreadable]"

definition garbage_tree :: node where
  "garbage_tree = Dir (text_of ''proj'') [File app_py (Bytes [0xFF, 0xFE])]"

definition invalid_byte_call :: "8 word list" where
  "invalid_byte_call = [0xFF, 0x6F, 0x73, 0x2E, 0x73, 0x79, 0x73, 0x74, 0x65, 0x6D, 0x28]"

definition invalid_byte_tree :: node where
  "invalid_byte_tree = Dir (text_of ''proj'') [File app_py (Bytes invalid_byte_call)]"

text \<open>The text \<open>x = 1\<close>, a newline, \<open>os.system(\<close>.\<close>

definition two_line_text :: pystr where
  "two_line_text = [120, 32, 61, 32, 49, 10] @ os_system_call"

text \<open>
  Two encoders for standard output: one that has every character (UTF-8 on the texts
  used below, which hold no surrogate) and one that has ASCII only.
\<close>

definition any_character :: encoder where
  "any_character c = True"

definition ascii_only :: encoder where
  "ascii_only c = False"

text \<open>
  What \<open>detect_project.py\<close> reports for a Flask project written with Cursor.
\<close>

definition flask_project :: ProjectInfo where
  "flask_project =
     \<lparr>project_type = ''flask/fastapi'', frameworks = [''flask''], languages = [''Python''],
      databases = [], cloud_services = [], ai_tool_indicators = [''cursor''],
      recommended_checks = [''secrets'', ''xss'', ''auth'', ''cors'', ''data'']\<rparr>"

section \<open>Properties\<close>

subsection \<open>Severity filtering\<close>

lemma filter_severity_subseq: "subseq (filter_severity m fs) fs"
  unfolding filter_severity_def by (rule subseq_filter_left)

lemma count_filter_severity:
  "count_list (filter_severity m fs) f =
     (if severity_value m \<le> severity_value (severity f) then count_list fs f else 0)"
  unfolding filter_severity_def by (induction fs) auto

lemma filter_severity_high_of_medium:
  "filter_severity HIGH (filter_severity MEDIUM fs) = filter_severity HIGH fs"
  unfolding filter_severity_def by (induction fs) auto

lemma at_or_above:
  "severity_value m \<le> severity_value s \<longleftrightarrow>
     (case m of
        CRITICAL \<Rightarrow> s = CRITICAL
      | HIGH \<Rightarrow> s = CRITICAL \<or> s = HIGH
      | MEDIUM \<Rightarrow> s = CRITICAL \<or> s = HIGH \<or> s = MEDIUM
      | LOW \<Rightarrow> True)"
  by (cases m; cases s) simp_all

text \<open>
  Claim C3. Filtering the findings of a scan by a minimum severity keeps exactly the
  findings at or above it in the order CRITICAL, HIGH, MEDIUM, LOW (threshold CRITICAL
  keeps the CRITICAL findings, HIGH the CRITICAL and HIGH ones, MEDIUM all but the LOW
  ones, LOW all), each as often as it occurred and in the original order; the findings
  kept at threshold HIGH are among those kept at threshold MEDIUM.
\<close>

theorem severity_filter_exact_ordered_monotone:
  "filter_severity CRITICAL fs = [f \<leftarrow> fs. severity f = CRITICAL]
   \<and> filter_severity HIGH fs = [f \<leftarrow> fs. severity f = CRITICAL \<or> severity f = HIGH]
   \<and> filter_severity MEDIUM fs =
       [f \<leftarrow> fs. severity f = CRITICAL \<or> severity f = HIGH \<or> severity f = MEDIUM]
   \<and> filter_severity LOW fs = fs
   \<and> set (filter_severity m fs) = {f \<in> set fs. severity_value m \<le> severity_value (severity f)}
   \<and> count_list (filter_severity m fs) f =
       (if severity_value m \<le> severity_value (severity f) then count_list fs f else 0)
   \<and> subseq (filter_severity m fs) fs
   \<and> set (filter_severity HIGH fs) \<subseteq> set (filter_severity MEDIUM fs)
   \<and> subseq (filter_severity HIGH fs) (filter_severity MEDIUM fs)"
proof -
  have c: "filter_severity CRITICAL fs = [f \<leftarrow> fs. severity f = CRITICAL]"
    unfolding filter_severity_def by (simp only: at_or_above Severity.case)
  have h: "filter_severity HIGH fs = [f \<leftarrow> fs. severity f = CRITICAL \<or> severity f = HIGH]"
    unfolding filter_severity_def by (simp only: at_or_above Severity.case filter_True simp_thms)
  have md: "filter_severity MEDIUM fs =
       [f \<leftarrow> fs. severity f = CRITICAL \<or> severity f = HIGH \<or> severity f = MEDIUM]"
    unfolding filter_severity_def by (simp only: at_or_above Severity.case filter_True simp_thms)
  have l: "filter_severity LOW fs = fs"
    unfolding filter_severity_def by (simp only: at_or_above Severity.case) simp
  have mem: "set (filter_severity m fs) = {f \<in> set fs. severity_value m \<le> severity_value (severity f)}"
    unfolding filter_severity_def by auto
  have sub: "subseq (filter_severity HIGH fs) (filter_severity MEDIUM fs)"
    using filter_severity_subseq [of HIGH "filter_severity MEDIUM fs"]
    by (simp only: filter_severity_high_of_medium)
  have incl: "set (filter_severity HIGH fs) \<subseteq> set (filter_severity MEDIUM fs)"
    unfolding filter_severity_def by auto
  from c h md l mem count_filter_severity filter_severity_subseq incl sub show ?thesis
    by blast
qed

subsection \<open>The axios scenario\<close>

text \<open>
  Claim C6. A \<open>package.json\<close> entry that maps \<open>axios\<close> to the version \<open>*\<close> yields
  exactly two findings for the package: a HIGH one of type vulnerable and a MEDIUM one of
  type suspicious, and none of type hallucinated.
\<close>

theorem axios_wildcard_two_findings:
  "check_npm_package ''axios'' ''*'' path [] =
     [vulnerable_finding ''axios'' (Some ''*'') path ''Run: npm update axios''
        (''< 1.6.0'', ''SSRF vulnerability''),
      suspicious_finding ''axios'' ''*'' path]
   \<and> map (\<lambda>f. (package f, issue_type f, dep_severity f)) (check_npm_package ''axios'' ''*'' path []) =
     [(''axios'', ''vulnerable'', ''HIGH''), (''axios'', ''suspicious'', ''MEDIUM'')]
   \<and> check_package_json
       [(''/srv/app/package.json'', ''package.json'',
         Object [(''dependencies'', DepsDict [(''axios'', ''*'')])])] [] =
     check_npm_package ''axios'' ''*'' ''package.json'' []"
proof -
  have low: "lower ''axios'' = ''axios''"
    by (simp add: lower_def lower_char_def)
  have npm: "check_npm_package ''axios'' ''*'' p [] =
     [vulnerable_finding ''axios'' (Some ''*'') p ''Run: npm update axios''
        (''< 1.6.0'', ''SSRF vulnerability''),
      suspicious_finding ''axios'' ''*'' p]" for p
    by (simp add: check_npm_package_def Let_def low HALLUCINATED_PACKAGES_def VULNERABLE_PACKAGES_def)
  have nm: "\<not> contains ''/srv/app/package.json'' ''node_modules''"
    by (simp add: startswith_def)
  have man: "check_package_json
       [(''/srv/app/package.json'', ''package.json'',
         Object [(''dependencies'', DepsDict [(''axios'', ''*'')])])] [] =
     check_npm_package ''axios'' ''*'' ''package.json'' []"
    using nm by simp
  show ?thesis
    by (simp only: npm man) (simp add: vulnerable_finding_def suspicious_finding_def)
qed

subsection \<open>The check value xss\<close>

text \<open>
  Claim C10. With the category restriction \<open>['xss']\<close> no file yields a finding, whatever
  it contains: the dispatch of \<open>_scan_file\<close> asks for six other names only, and adding
  \<open>xss\<close> to a restriction changes nothing.
\<close>

theorem xss_only_check_finds_nothing:
  "scan_file fi path d (Some [''xss'']) r = r
   \<and> findings (scan fi root (Some [''xss''])) = []
   \<and> scan_file fi path d (Some (''xss'' # c # cs)) r = scan_file fi path d (Some (c # cs)) r"
proof -
  have sel: "\<not> selected (Some [''xss'']) ''secrets''" "\<not> selected (Some [''xss'']) ''injection''"
    "\<not> selected (Some [''xss'']) ''auth''" "\<not> selected (Some [''xss'']) ''crypto''"
    "\<not> selected (Some [''xss'']) ''cloud''" "\<not> selected (Some [''xss'']) ''data''"
    by (simp_all add: selected_def)
  have one: "scan_file fi p e (Some [''xss'']) s = s" for p e s
    by (simp add: scan_file_def Let_def sel split: sum.splits)
  have loop: "findings (scan_files fi (Some [''xss'']) fs s) = findings s" for fs s
    by (induction fs arbitrary: s) (auto simp: one)
  have sel2: "selected (Some (''xss'' # c # cs)) ''secrets'' = selected (Some (c # cs)) ''secrets''"
    "selected (Some (''xss'' # c # cs)) ''injection'' = selected (Some (c # cs)) ''injection''"
    "selected (Some (''xss'' # c # cs)) ''auth'' = selected (Some (c # cs)) ''auth''"
    "selected (Some (''xss'' # c # cs)) ''crypto'' = selected (Some (c # cs)) ''crypto''"
    "selected (Some (''xss'' # c # cs)) ''cloud'' = selected (Some (c # cs)) ''cloud''"
    "selected (Some (''xss'' # c # cs)) ''data'' = selected (Some (c # cs)) ''data''"
    by (simp_all add: selected_def)
  have two: "scan_file fi path d (Some (''xss'' # c # cs)) r = scan_file fi path d (Some (c # cs)) r"
    unfolding scan_file_def by (simp only: sel2)
  show ?thesis
    by (simp add: one two scan_def loop new_ScanResult_def)
qed

subsection \<open>Hallucinated packages\<close>

lemma python_denylist_not_vulnerable:
  "n \<in> set (HALLUCINATED_PACKAGES ''python'') \<Longrightarrow> map_of (VULNERABLE_PACKAGES ''python'') n = None"
proof -
  have h: "HALLUCINATED_PACKAGES ''python'' =
        [''huggingface-cli'', ''flask-security-utils'', ''django-rest-utils'',
         ''pytorch-utils'', ''tensorflow-utils'', ''numpy-tools'', ''pandas-utils'',
         ''scikit-utils'', ''aws-sdk'', ''google-cloud-utils'', ''openai-utils'',
         ''langchain-utils'']"
    by (simp add: HALLUCINATED_PACKAGES_def)
  have v: "map fst (VULNERABLE_PACKAGES ''python'') =
        [''pyyaml'', ''urllib3'', ''requests'', ''cryptography'', ''pillow'', ''django'',
         ''flask'', ''jinja2'', ''werkzeug'', ''numpy'']"
    by (simp add: VULNERABLE_PACKAGES_def)
  assume "n \<in> set (HALLUCINATED_PACKAGES ''python'')"
  then have "n \<notin> set (map fst (VULNERABLE_PACKAGES ''python''))"
    unfolding h v by (simp only: set_simps insert_iff empty_iff simp_thms) (elim disjE; simp)
  then show ?thesis
    by (simp only: map_of_eq_None_iff set_map not_False_eq_True)
qed

lemma npm_denylist_not_vulnerable:
  "n \<in> set (HALLUCINATED_PACKAGES ''npm'') \<Longrightarrow> map_of (VULNERABLE_PACKAGES ''npm'') n = None"
proof -
  have h: "HALLUCINATED_PACKAGES ''npm'' =
        [''react-utils'', ''vue-utils'', ''next-utils'', ''express-utils'', ''node-utils'',
         ''typescript-utils'', ''mongodb-utils'', ''postgres-utils'', ''aws-sdk-utils'',
         ''stripe-utils'']"
    by (simp add: HALLUCINATED_PACKAGES_def)
  have v: "map fst (VULNERABLE_PACKAGES ''npm'') =
        [''lodash'', ''axios'', ''express'', ''jsonwebtoken'', ''mongoose'', ''sequelize'',
         ''minimist'', ''node-fetch'', ''got'', ''ws'']"
    by (simp add: VULNERABLE_PACKAGES_def)
  assume "n \<in> set (HALLUCINATED_PACKAGES ''npm'')"
  then have "n \<notin> set (map fst (VULNERABLE_PACKAGES ''npm''))"
    unfolding h v by (simp only: set_simps insert_iff empty_iff simp_thms) (elim disjE; simp)
  then show ?thesis
    by (simp only: map_of_eq_None_iff set_map not_False_eq_True)
qed

text \<open>
  Claim C2. A package whose lower-cased name is on the denylist of its ecosystem gets
  exactly one CRITICAL finding, of type hallucinated, whatever its version (none
  included): for the Python ecosystem it is the only finding added, for npm the only
  CRITICAL one.
\<close>

theorem denylisted_name_one_critical_finding:
  "(lower pkg \<in> set (HALLUCINATED_PACKAGES ''python'') \<longrightarrow>
      check_python_package pkg ver path fs =
        fs @ [hallucinated_finding pkg ver path
                ''Verify package exists on PyPI: pip search or visit pypi.org''])
   \<and> (lower pkg \<in> set (HALLUCINATED_PACKAGES ''npm'') \<longrightarrow>
      [f \<leftarrow> check_npm_package pkg nver path fs. dep_severity f = ''CRITICAL''] =
        [f \<leftarrow> fs. dep_severity f = ''CRITICAL''] @
        [hallucinated_finding pkg (Some nver) path
           ''Verify package exists on npm: npm view or visit npmjs.com''])
   \<and> issue_type (hallucinated_finding pkg v path remed) = ''hallucinated''
   \<and> dep_severity (hallucinated_finding pkg v path remed) = ''CRITICAL''"
proof -
  have py: "check_python_package pkg ver path fs =
        fs @ [hallucinated_finding pkg ver path
                ''Verify package exists on PyPI: pip search or visit pypi.org'']"
    if "lower pkg \<in> set (HALLUCINATED_PACKAGES ''python'')"
    unfolding check_python_package_def Let_def
    by (simp only: that python_denylist_not_vulnerable [OF that] if_True option.case)
  have sev: "dep_severity (hallucinated_finding a b c d) = ''CRITICAL''" 
     "dep_severity (suspicious_finding a e c) \<noteq> ''CRITICAL''" for a b c d e
    by (simp_all add: hallucinated_finding_def suspicious_finding_def)
  have npm: "[f \<leftarrow> check_npm_package pkg nver path fs. dep_severity f = ''CRITICAL''] =
        [f \<leftarrow> fs. dep_severity f = ''CRITICAL''] @
        [hallucinated_finding pkg (Some nver) path
           ''Verify package exists on npm: npm view or visit npmjs.com'']"
    if "lower pkg \<in> set (HALLUCINATED_PACKAGES ''npm'')"
    unfolding check_npm_package_def Let_def
    by (simp only: that npm_denylist_not_vulnerable [OF that] if_True option.case
          filter_append filter.simps sev split: if_split) simp
  have ty: "issue_type (hallucinated_finding pkg v path remed) = ''hallucinated''"
    by (simp add: hallucinated_finding_def)
  from py npm ty sev(1) show ?thesis by blast
qed

theorem denylisted_name_one_critical_finding_witness:
  "lower ''Flask-Security-Utils'' \<in> set (HALLUCINATED_PACKAGES ''python'')
   \<and> check_python_package ''Flask-Security-Utils'' None ''requirements.txt'' [] =
       [hallucinated_finding ''Flask-Security-Utils'' None ''requirements.txt''
          ''Verify package exists on PyPI: pip search or visit pypi.org'']
   \<and> lower ''React-Utils'' \<in> set (HALLUCINATED_PACKAGES ''npm'')
   \<and> [f \<leftarrow> check_npm_package ''React-Utils'' ''latest'' ''package.json'' [].
         dep_severity f = ''CRITICAL''] =
       [hallucinated_finding ''React-Utils'' (Some ''latest'') ''package.json''
          ''Verify package exists on npm: npm view or visit npmjs.com'']"
proof -
  have p: "lower ''Flask-Security-Utils'' \<in> set (HALLUCINATED_PACKAGES ''python'')"
    by code_simp
  have n: "lower ''React-Utils'' \<in> set (HALLUCINATED_PACKAGES ''npm'')"
    by code_simp
  note py = denylisted_name_one_critical_finding
      [of "''Flask-Security-Utils''" None "''requirements.txt''" "[]" "''latest''", THEN conjunct1,
       THEN mp, OF p]
  note npm = denylisted_name_one_critical_finding
      [of "''React-Utils''" None "''package.json''" "[]" "''latest''", THEN conjunct2,
       THEN conjunct1, THEN mp, OF n]
  have npm': "[f \<leftarrow> check_npm_package ''React-Utils'' ''latest'' ''package.json'' [].
         dep_severity f = ''CRITICAL''] =
       [hallucinated_finding ''React-Utils'' (Some ''latest'') ''package.json''
          ''Verify package exists on npm: npm view or visit npmjs.com'']"
    using npm by (simp only: filter.simps append_Nil)
  have py': "check_python_package ''Flask-Security-Utils'' None ''requirements.txt'' [] =
       [hallucinated_finding ''Flask-Security-Utils'' None ''requirements.txt''
          ''Verify package exists on PyPI: pip search or visit pypi.org'']"
    using py by (simp only: append_Nil)
  from p py' n npm' show ?thesis by (intro conjI)
qed

subsection \<open>The deployment verdict\<close>

lemma text_of_eq_iff: "text_of a = text_of b \<longleftrightarrow> a = b"
  unfolding text_of_def by (rule inj_map_eq_map [OF inj_of_char])

lemma length_get_by_severity_pos:
  "0 < int (length (get_by_severity r s)) \<longleftrightarrow> (\<exists>f \<in> set (findings r). severity f = s)"
  unfolding get_by_severity_def by (simp add: filter_empty_conv)

lemma jget_json_output:
  "jget (json_output r) ''critical'' d = Inr (JInt (int (length (get_by_severity r CRITICAL))))"
  "jget (json_output r) ''high'' d = Inr (JInt (int (length (get_by_severity r HIGH))))"
  "jget (json_output r) ''medium'' d = Inr (JInt (int (length (get_by_severity r MEDIUM))))"
  "jget (json_output r) ''low'' d = Inr (JInt (int (length (get_by_severity r LOW))))"
  "jget (json_output r) ''findings'' d = Inr (JList (map finding_json (findings r)))"
  "jindex (json_output r) ''findings'' = Inr (JList (map finding_json (findings r)))"
  by (simp_all add: json_output_def)

lemma jget_dep_json_output:
  "jget (dep_json_output ds) ''total_findings'' d = Inr (JInt (int (length ds)))"
  "jget (dep_json_output ds) ''findings'' d = Inr (JList (map dep_finding_json ds))"
  "jindex (dep_json_output ds) ''findings'' = Inr (JList (map dep_finding_json ds))"
  by (simp_all add: dep_json_output_def)

lemma headline_counts:
  "headline (JInt c) (JInt h) (JInt m) =
     Inr (if 0 < c then BLOCKED else if 0 < h then ACTION_REQUIRED
          else if 0 < m then REVIEW else PASSED)"
  by (simp add: headline_def and_then_def)

lemma jjoin_strings: "jjoin (strings_json xs) = Inr (join_comma (map text_of xs))"
  by (simp add: jjoin_def strings_json_def and_then_def list_all_iff comp_def)

lemma project_section_documents:
  "project_section JNull = Inr False"
  "project_section (JDict [(''error'', JStr msg)]) = Inr False"
  "project_section (project_json p) = Inr True"
  by (simp_all add: project_section_def project_json_def and_then_def jjoin_strings)

lemma select_severity_findings:
  "select_severity sev (map finding_json fs) =
     Inr (map finding_json [f \<leftarrow> fs. severity_name (severity f) = sev])"
  by (induction fs) (simp_all add: and_then_def finding_json_def text_of_eq_iff)

lemma render_finding_json: "render_finding (finding_json f) = Inr ()"
  by (simp add: render_finding_def finding_json_def and_then_def)

lemma each_render_finding: "each render_finding (map finding_json fs) = Inr ()"
  by (induction fs) (simp_all add: and_then_def render_finding_json)

lemma severity_groups_json_output: "\<exists>g. severity_groups (json_output r) sevs = Inr g"
proof (induction sevs)
  case Nil
  show ?case by simp
next
  case (Cons sev sevs)
  then obtain g where g: "severity_groups (json_output r) sevs = Inr g" by blast
  show ?case
    by (simp add: jget_json_output and_then_def select_severity_findings each_render_finding g)
qed

lemma security_section_json_output: "\<exists>g. security_section (json_output r) = Inr g"
  using severity_groups_json_output [of r "[''CRITICAL'', ''HIGH'', ''MEDIUM'', ''LOW'']"]
  by (auto simp: security_section_def jget_json_output and_then_def)

lemma render_dependency_json:
  "render_dependency (dep_finding_json d) =
     (if dep_severity d = ''CRITICAL'' \<or> dep_severity d = ''HIGH'' \<or> dep_severity d = ''MEDIUM''
      then Inr () else Inl KeyError)"
  by (simp add: render_dependency_def dep_finding_json_def and_then_def text_of_eq_iff)

lemma each_render_dependency:
  "each render_dependency (map dep_finding_json ds) =
     (if list_all (\<lambda>d. dep_severity d = ''CRITICAL'' \<or> dep_severity d = ''HIGH'' \<or>
                        dep_severity d = ''MEDIUM'') ds
      then Inr () else Inl KeyError)"
  by (induction ds) (simp_all add: and_then_def render_dependency_json)

lemma dependency_section_json_output:
  "dependency_section (dep_json_output ds) =
     (if list_all (\<lambda>d. dep_severity d = ''CRITICAL'' \<or> dep_severity d = ''HIGH'' \<or>
                        dep_severity d = ''MEDIUM'') ds
      then Inr (map dep_finding_json ds) else Inl KeyError)"
proof (cases "ds = []")
  case True
  then show ?thesis
    by (simp add: dependency_section_def jget_dep_json_output and_then_def)
next
  case False
  then show ?thesis
    by (simp add: dependency_section_def jget_dep_json_output and_then_def
          each_render_dependency)
qed

lemma report_of_documents:
  assumes "info = JNull \<or> info = JDict [(''error'', JStr msg)] \<or> info = project_json p"
  shows "if list_all (\<lambda>d. dep_severity d = ''CRITICAL'' \<or> dep_severity d = ''HIGH'' \<or>
                           dep_severity d = ''MEDIUM'') ds
         then \<exists>rep. generate_markdown_report
                  \<lparr>scan_date = date, project_path = proj, project_info = info,
                   security_findings = json_output r,
                   dependency_findings = dep_json_output ds\<rparr> = Inr rep
                \<and> verdict rep =
                    (if \<exists>f \<in> set (findings r). severity f = CRITICAL then BLOCKED
                     else if \<exists>f \<in> set (findings r). severity f = HIGH then ACTION_REQUIRED
                     else if \<exists>f \<in> set (findings r). severity f = MEDIUM then REVIEW
                     else PASSED)
         else generate_markdown_report
                  \<lparr>scan_date = date, project_path = proj, project_info = info,
                   security_findings = json_output r,
                   dependency_findings = dep_json_output ds\<rparr> = Inl KeyError"
proof -
  from assms obtain shown where p: "project_section info = Inr shown"
    using project_section_documents by blast
  obtain g where s: "security_section (json_output r) = Inr g"
    using security_section_json_output by blast
  show ?thesis
    by (simp add: generate_markdown_report_def and_then_def jget_json_output
          jget_dep_json_output headline_counts p s dependency_section_json_output
          length_get_by_severity_pos del: of_nat_0_less_iff)
qed

lemma verdict_of_any_report:
  assumes "generate_markdown_report
             \<lparr>scan_date = date, project_path = proj, project_info = info,
              security_findings = json_output r, dependency_findings = dep\<rparr> = Inr rep"
  shows "verdict rep =
           (if \<exists>f \<in> set (findings r). severity f = CRITICAL then BLOCKED
            else if \<exists>f \<in> set (findings r). severity f = HIGH then ACTION_REQUIRED
            else if \<exists>f \<in> set (findings r). severity f = MEDIUM then REVIEW
            else PASSED)"
  using assms
  by (auto simp: generate_markdown_report_def and_then_def jget_json_output headline_counts
        length_get_by_severity_pos simp del: of_nat_0_less_iff split: sum.splits)

lemma hallucinated_react_utils:
  "check_npm_package ''react-utils'' ''1.0.0'' ''package.json'' [] =
     [hallucinated_finding ''react-utils'' (Some ''1.0.0'') ''package.json''
        ''Verify package exists on npm: npm view or visit npmjs.com'']"
proof -
  have low: "lower ''react-utils'' = ''react-utils''"
    by code_simp
  have h: "HALLUCINATED_PACKAGES ''npm'' =
        [''react-utils'', ''vue-utils'', ''next-utils'', ''express-utils'', ''node-utils'',
         ''typescript-utils'', ''mongodb-utils'', ''postgres-utils'', ''aws-sdk-utils'',
         ''stripe-utils'']"
    by (simp add: HALLUCINATED_PACKAGES_def)
  have v: "map_of (VULNERABLE_PACKAGES ''npm'') ''react-utils'' = None"
    by (simp add: VULNERABLE_PACKAGES_def)
  show ?thesis
    by (simp add: check_npm_package_def Let_def low h v)
qed




subsection \<open>What the loops of the scanner append\<close>

lemma split_nl_not_Nil: "split_nl c \<noteq> []"
  by (induction c) (auto split: list.splits)

lemma join_split_nl: "join_nl (split_nl c) = c"
proof (induction c)
  case Nil
  show ?case by simp
next
  case (Cons a c)
  obtain l ls where s: "split_nl c = l # ls"
    using split_nl_not_Nil [of c] by (cases "split_nl c") auto
  show ?case
  proof (cases "a = NL")
    case True
    with Cons s show ?thesis by simp
  next
    case False
    with Cons s show ?thesis by (cases ls) auto
  qed
qed

lemma hd_split_nl: "hd (split_nl c) = takeWhile (\<lambda>x. x \<noteq> NL) c"
  by (induction c) (auto simp: split_nl_not_Nil split: list.splits)

lemma count_nl_0: "NL \<notin> set s \<Longrightarrow> count_nl s = 0"
  by (induction s) auto

lemma count_nl_first_line:
  assumes "start \<le> length (hd (split_nl c))"
  shows "count_nl (take start c) = 0"
proof -
  let ?l = "takeWhile (\<lambda>x. x \<noteq> NL) c"
  have "take start c = take start (?l @ dropWhile (\<lambda>x. x \<noteq> NL) c)" by simp
  also have "\<dots> = take start ?l" using assms by (simp only: hd_split_nl take_append) simp
  finally have "set (take start c) \<subseteq> set ?l" by (simp add: set_take_subset)
  moreover have "NL \<notin> set ?l" by (auto dest: set_takeWhileD)
  ultimately show ?thesis by (intro count_nl_0) blast
qed

lemma line_number_make_finding:
  "line_number (make_finding path lines content rid descr cat sev remed start) =
     int (count_nl (take start content)) + 1"
  by (simp add: make_finding_def Let_def)

lemma category_severity_make_finding:
  "category (make_finding path lines content rid descr cat sev remed start) = cat"
  "severity (make_finding path lines content rid descr cat sev remed start) = sev"
  "rule_id (make_finding path lines content rid descr cat sev remed start) = rid"
  by (simp_all add: make_finding_def Let_def)

lemma findings_check_matches:
  "findings (check_matches path lines content rid descr cat sev remed starts r) =
     findings r @ map (make_finding path lines content rid descr cat sev remed) starts"
  by (induction starts arbitrary: r) (simp_all add: add_def)

lemma files_scanned_check_matches:
  "files_scanned (check_matches path lines content rid descr cat sev remed starts r) =
     files_scanned r"
  by (induction starts arbitrary: r) (simp_all add: add_def)

lemma findings_check_rules:
  "findings (check_rules fi path lines content rules cat sev remed r) =
     findings r @
     concat (map (\<lambda>(pattern, rid, descr).
                    map (make_finding path lines content rid descr cat sev remed)
                      (fi pattern content)) rules)"
  by (induction rules arbitrary: r) (auto simp: findings_check_matches)

lemma files_scanned_check_rules:
  "files_scanned (check_rules fi path lines content rules cat sev remed r) = files_scanned r"
  by (induction rules arbitrary: r) (auto simp: files_scanned_check_matches)

lemma findings_check_patterns:
  "findings (check_patterns fi path (split_nl content) rules cat sev remed r) =
     findings r @ rule_hits fi path content rules cat sev remed"
  by (simp add: check_patterns_def join_split_nl findings_check_rules rule_hits_def)

lemma files_scanned_check_patterns:
  "files_scanned (check_patterns fi path lines rules cat sev remed r) = files_scanned r"
  by (simp add: check_patterns_def files_scanned_check_rules)

lemma in_rule_hits:
  "f \<in> set (rule_hits fi path content rules cat sev remed) \<longleftrightarrow>
     (\<exists>pattern rid descr start.
        (pattern, rid, descr) \<in> set rules \<and> start \<in> set (fi pattern content) \<and>
        f = make_finding path (split_nl content) content rid descr cat sev remed start)"
proof (induction rules)
  case Nil
  show ?case by (simp add: rule_hits_def)
next
  case (Cons x rules)
  obtain p i e where x: "x = (p, i, e)" by (cases x)
  have "f \<in> set (rule_hits fi path content (x # rules) cat sev remed) \<longleftrightarrow>
        (\<exists>start. start \<in> set (fi p content) \<and>
           f = make_finding path (split_nl content) content i e cat sev remed start) \<or>
        f \<in> set (rule_hits fi path content rules cat sev remed)"
    unfolding rule_hits_def x by auto
  then show ?case
    unfolding Cons.IH x by (simp only: set_simps insert_iff prod.inject) blast
qed

lemma findings_check_injection:
  "findings (check_injection fi path (split_nl content) items r) =
     findings r @ injection_hits fi path content items"
  by (induction items arbitrary: r)
     (auto simp: injection_hits_def findings_check_patterns)

lemma files_scanned_check_injection:
  "files_scanned (check_injection fi path lines items r) = files_scanned r"
  by (induction items arbitrary: r) (auto simp: files_scanned_check_patterns)

lemma in_injection_hits:
  "f \<in> set (injection_hits fi path content items) \<longleftrightarrow>
     (\<exists>cat rules.
        (cat, rules) \<in> set items \<and>
        f \<in> set (rule_hits fi path content rules (''Injection ('' @ cat @ '')'')
                   (if cat \<in> {''sql'', ''command''} then CRITICAL else HIGH)
                   ''Use parameterized queries/safe APIs''))"
proof (induction items)
  case Nil
  show ?case by (simp add: injection_hits_def)
next
  case (Cons x items)
  obtain c rs where x: "x = (c, rs)" by (cases x)
  have "f \<in> set (injection_hits fi path content (x # items)) \<longleftrightarrow>
        f \<in> set (rule_hits fi path content rs (''Injection ('' @ c @ '')'')
                   (if c \<in> {''sql'', ''command''} then CRITICAL else HIGH)
                   ''Use parameterized queries/safe APIs'') \<or>
        f \<in> set (injection_hits fi path content items)"
    unfolding injection_hits_def x by simp
  then show ?case
    unfolding Cons.IH x by (simp only: set_simps insert_iff prod.inject) blast
qed

lemma findings_scan_file:
  "findings (scan_file fi path d checks r) =
     findings r @ (case read_text d of Inl e \<Rightarrow> [] | Inr content \<Rightarrow> file_hits fi path content checks)"
  by (simp add: scan_file_def Let_def file_hits_def findings_check_patterns
        findings_check_injection split: sum.splits)

lemma files_scanned_scan_file:
  "files_scanned (scan_file fi path d checks r) = files_scanned r"
  by (simp add: scan_file_def Let_def files_scanned_check_patterns
        files_scanned_check_injection split: sum.splits)

lemma new_findings_scan_file:
  "drop (length (findings r)) (findings (scan_file fi path d checks r)) =
     (case read_text d of Inl e \<Rightarrow> [] | Inr content \<Rightarrow> file_hits fi path content checks)"
  by (simp add: findings_scan_file)

lemma rule_hits_category_severity:
  "f \<in> set (rule_hits fi path content rules cat sev remed) \<Longrightarrow> category f = cat \<and> severity f = sev"
  unfolding in_rule_hits by (auto simp: category_severity_make_finding)

lemma injection_hits_category_severity:
  assumes "f \<in> set (injection_hits fi path content INJECTION_PATTERNS)"
  shows "(category f = ''Injection (sql)'' \<and> severity f = CRITICAL) \<or>
         (category f = ''Injection (command)'' \<and> severity f = CRITICAL) \<or>
         (category f = ''Injection (xss)'' \<and> severity f = HIGH) \<or>
         (category f = ''Injection (nosql)'' \<and> severity f = HIGH)"
proof -
  from assms obtain cat rules where
    m: "(cat, rules) \<in> set INJECTION_PATTERNS" and
    h: "f \<in> set (rule_hits fi path content rules (''Injection ('' @ cat @ '')'')
                   (if cat \<in> {''sql'', ''command''} then CRITICAL else HIGH)
                   ''Use parameterized queries/safe APIs'')"
    unfolding in_injection_hits by blast
  from m have "cat = ''sql'' \<or> cat = ''command'' \<or> cat = ''xss'' \<or> cat = ''nosql''"
    by (auto simp: INJECTION_PATTERNS_def)
  with rule_hits_category_severity [OF h] show ?thesis
    by (elim disjE) simp_all
qed

lemma file_hits_category_severity:
  assumes "f \<in> set (file_hits fi path content checks)"
  shows "(category f = ''Secrets'' \<and> severity f = CRITICAL) \<or>
         (category f = ''Injection (sql)'' \<and> severity f = CRITICAL) \<or>
         (category f = ''Injection (command)'' \<and> severity f = CRITICAL) \<or>
         (category f = ''Injection (xss)'' \<and> severity f = HIGH) \<or>
         (category f = ''Injection (nosql)'' \<and> severity f = HIGH) \<or>
         (category f = ''Authentication'' \<and> severity f = HIGH) \<or>
         (category f = ''Cryptography'' \<and> severity f = HIGH) \<or>
         (category f = ''Cloud/Infrastructure'' \<and> severity f = HIGH) \<or>
         (category f = ''Data Handling'' \<and> severity f = HIGH)"
proof -
  from assms consider
      "f \<in> set (rule_hits fi path content SECRETS_PATTERNS ''Secrets'' CRITICAL
             ''Move secrets to environment variables or a secrets manager'')"
    | "f \<in> set (injection_hits fi path content INJECTION_PATTERNS)"
    | "f \<in> set (rule_hits fi path content AUTH_PATTERNS ''Authentication'' HIGH
             ''See references/auth.md for secure patterns'')"
    | "f \<in> set (rule_hits fi path content CRYPTO_PATTERNS ''Cryptography'' HIGH
             ''Use modern algorithms (AES-256, SHA-256, bcrypt)'')"
    | "f \<in> set (rule_hits fi path content CLOUD_PATTERNS ''Cloud/Infrastructure'' HIGH
             ''See references/infrastructure.md'')"
    | "f \<in> set (rule_hits fi path content DATA_PATTERNS ''Data Handling'' HIGH
             ''Use safe deserialization methods'')"
    unfolding file_hits_def by (auto split: if_splits)
  then show ?thesis
  proof cases
    case 2
    from injection_hits_category_severity [OF this] show ?thesis by blast
  qed (use rule_hits_category_severity in blast)+
qed

lemma rule_hits_line_number:
  assumes "f \<in> set (rule_hits fi path content rules cat sev remed)"
  shows "\<exists>pattern start. start \<in> set (fi pattern content) \<and>
           line_number f = int (count_nl (take start content)) + 1"
proof -
  from assms obtain pattern rid descr start where
    "start \<in> set (fi pattern content)"
    "f = make_finding path (split_nl content) content rid descr cat sev remed start"
    unfolding in_rule_hits by blast
  then have "start \<in> set (fi pattern content) \<and>
      line_number f = int (count_nl (take start content)) + 1"
    by (simp add: line_number_make_finding)
  then show ?thesis by blast
qed

lemma file_hits_line_number:
  assumes "f \<in> set (file_hits fi path content checks)"
  shows "\<exists>pattern start. start \<in> set (fi pattern content) \<and>
           line_number f = int (count_nl (take start content)) + 1"
proof -
  from assms consider
      "f \<in> set (rule_hits fi path content SECRETS_PATTERNS ''Secrets'' CRITICAL
             ''Move secrets to environment variables or a secrets manager'')"
    | "f \<in> set (injection_hits fi path content INJECTION_PATTERNS)"
    | "f \<in> set (rule_hits fi path content AUTH_PATTERNS ''Authentication'' HIGH
             ''See references/auth.md for secure patterns'')"
    | "f \<in> set (rule_hits fi path content CRYPTO_PATTERNS ''Cryptography'' HIGH
             ''Use modern algorithms (AES-256, SHA-256, bcrypt)'')"
    | "f \<in> set (rule_hits fi path content CLOUD_PATTERNS ''Cloud/Infrastructure'' HIGH
             ''See references/infrastructure.md'')"
    | "f \<in> set (rule_hits fi path content DATA_PATTERNS ''Data Handling'' HIGH
             ''Use safe deserialization methods'')"
    unfolding file_hits_def by (auto split: if_splits)
  then show ?thesis
  proof cases
    case 2
    then obtain cat rules where
      "f \<in> set (rule_hits fi path content rules (''Injection ('' @ cat @ '')'')
                   (if cat \<in> {''sql'', ''command''} then CRITICAL else HIGH)
                   ''Use parameterized queries/safe APIs'')"
      unfolding in_injection_hits by blast
    then show ?thesis by (rule rule_hits_line_number)
  qed (erule rule_hits_line_number)+
qed

lemma scan_single_file:
  assumes "get_files root = [(path, d)]"
  shows "scan fi root checks = (scan_file fi path d checks new_ScanResult)\<lparr>files_scanned := 1\<rparr>"
  using assms by (simp add: scan_def Let_def files_scanned_scan_file new_ScanResult_def)

subsection \<open>The concrete inputs\<close>

lemma demo_two_line: "demo_finditer os_system_pattern two_line_text = [6]"
  by (simp add: demo_finditer_def two_line_text_def os_system_call_def)

lemma demo_call: "demo_finditer os_system_pattern os_system_call = [0]"
  by (simp add: demo_finditer_def os_system_call_def)

lemma command_demo_concat:
  "concat (map (\<lambda>(pattern, rid, descr). map g (demo_finditer pattern c)) INJECTION_command) =
     map g (demo_finditer os_system_pattern c)"
  by (simp add: INJECTION_command_def demo_finditer_def os_system_pattern_def bsl_def)

lemma hits_command_demo:
  "rule_hits demo_finditer path c INJECTION_command cat sev remed =
     map (make_finding path (split_nl c) c ''INJ-010'' ''os.system() is dangerous'' cat sev remed)
       (demo_finditer os_system_pattern c)"
  by (simp add: rule_hits_def INJECTION_command_def demo_finditer_def os_system_pattern_def bsl_def)

lemma read_invalid_byte_call: "read_text (Bytes invalid_byte_call) = Inr os_system_call"
  by (simp add: read_text_def invalid_byte_call_def os_system_call_def CR_def NL_def)

lemma undecodable_invalid_byte_call: "undecodable invalid_byte_call"
  by (simp add: invalid_byte_call_def)

lemma candidate_app_py: "is_candidate app_py"
  by code_simp

lemma get_files_single: "is_candidate name \<Longrightarrow> get_files (Dir dname [File name d]) = [(name, d)]"
  by (simp add: get_files_def rel_path_def)

lemma decode_garbage: "universal_newlines (utf8_decode_ignore [0xFF, 0xFE]) = []"
  by simp

lemma table_without_os_system:
  "fst ` set SECRETS_PATTERNS \<inter> {os_system_pattern} = {}"
  "fst ` set INJECTION_sql \<inter> {os_system_pattern} = {}"
  "fst ` set INJECTION_xss \<inter> {os_system_pattern} = {}"
  "fst ` set INJECTION_nosql \<inter> {os_system_pattern} = {}"
  "fst ` set AUTH_PATTERNS \<inter> {os_system_pattern} = {}"
  "fst ` set CRYPTO_PATTERNS \<inter> {os_system_pattern} = {}"
  "fst ` set CLOUD_PATTERNS \<inter> {os_system_pattern} = {}"
  "fst ` set DATA_PATTERNS \<inter> {os_system_pattern} = {}"
  by (simp_all add: SECRETS_PATTERNS_def INJECTION_sql_def INJECTION_xss_def INJECTION_nosql_def
        AUTH_PATTERNS_def CRYPTO_PATTERNS_def CLOUD_PATTERNS_def DATA_PATTERNS_def
        os_system_pattern_def bsl_def sq_def)

lemma rule_hits_demo_other:
  "fst ` set rules \<inter> {os_system_pattern} = {} \<Longrightarrow>
     rule_hits demo_finditer path c rules cat sev remed = []"
  by (induction rules) (auto simp: rule_hits_def demo_finditer_def)

lemma file_hits_demo_call:
  "file_hits demo_finditer app_py os_system_call None =
     [make_finding app_py (split_nl os_system_call) os_system_call ''INJ-010''
        ''os.system() is dangerous'' ''Injection (command)'' CRITICAL
        ''Use parameterized queries/safe APIs'' 0]"
  by (simp add: file_hits_def selected_def injection_hits_def INJECTION_PATTERNS_def
        rule_hits_demo_other table_without_os_system hits_command_demo demo_call)

subsection \<open>Exit status\<close>

lemma findings_main_result:
  "findings (main_result fi root args) \<noteq> [] \<longleftrightarrow>
     (\<exists>f \<in> set (findings (scan fi root (if arg_full args then None else arg_check args))).
        case arg_severity args of None \<Rightarrow> True
        | Some min_severity \<Rightarrow> severity_value min_severity \<le> severity_value (severity f))"
proof (cases "arg_severity args")
  case None
  then show ?thesis
    by (simp add: main_result_def Let_def ex_in_conv)
next
  case (Some m)
  then show ?thesis
    by (simp add: main_result_def Let_def filter_severity_def filter_empty_conv)
qed

lemma document_always_printed: "list_all (accepted enc) (print_results result True)"
  by (simp add: print_results_def)

lemma console_report_needs_icon:
  assumes "list_all (accepted enc) (print_results result False)"
  shows "enc (icon CRITICAL)"
proof -
  have "Line (text_of ''  '' @ [icon CRITICAL] @ text_of '' CRITICAL: '' @
          str_int (int (length (get_by_severity result CRITICAL))))
        \<in> set (print_results result False)"
    by (simp add: print_results_def console_lines_def)
  with assms have "encodable enc (text_of ''  '' @ [icon CRITICAL] @ text_of '' CRITICAL: '' @
          str_int (int (length (get_by_severity result CRITICAL))))"
    unfolding list_all_iff by fastforce
  then show ?thesis
    by (simp add: encodable_def)
qed




text \<open>
  Claim C8. On a target path that does not exist the scanner and the dependency checker
  exit with status 1 before any scan; the report generator prints the same error and
  runs no check either, but returns from \<open>main\<close>, so its exit status is 0.
\<close>

theorem missing_path_exit_codes:
  "exit_code (scan_main enc fi None sargs) = 1 \<and> scanned (scan_main enc fi None sargs) = None
   \<and> dep_exit_code (dep_main None dargs) = 1 \<and> dep_checked (dep_main None dargs) = None
   \<and> report_exit_code (report_main False rargs rest) = 0
   \<and> checks_run (report_main False rargs rest) = False"
  by (simp add: scan_main_def dep_main_def report_main_def)

subsection \<open>Line numbers\<close>



subsection \<open>The injection rule sets\<close>

text \<open>
  Claim C5. When the injection category is selected (or nothing is), every match of
  every rule of the four injection tables (sql, command, xss, nosql, in this order)
  adds its finding to the file's result, with severity CRITICAL for sql and command and
  HIGH for xss and nosql; and every finding a file adds in an injection category has
  the severity of that category.
\<close>

theorem injection_rule_sets_applied_together:
  "(read_text d = Inr content \<and> selected checks ''injection'' \<and>
    (cat, rules) \<in> set INJECTION_PATTERNS \<and> (pattern, rid, descr) \<in> set rules \<and>
    start \<in> set (fi pattern content) \<longrightarrow>
      make_finding path (split_nl content) content rid descr (''Injection ('' @ cat @ '')'')
        (if cat \<in> {''sql'', ''command''} then CRITICAL else HIGH)
        ''Use parameterized queries/safe APIs'' start
      \<in> set (drop (length (findings r)) (findings (scan_file fi path d checks r))))
   \<and> (\<forall>f \<in> set (drop (length (findings r)) (findings (scan_file fi path d checks r))).
        (category f \<in> {''Injection (sql)'', ''Injection (command)''} \<longrightarrow> severity f = CRITICAL) \<and>
        (category f \<in> {''Injection (xss)'', ''Injection (nosql)''} \<longrightarrow> severity f = HIGH))
   \<and> map fst INJECTION_PATTERNS = [''sql'', ''command'', ''xss'', ''nosql'']"
proof (intro conjI impI ballI)
  assume a: "read_text d = Inr content \<and> selected checks ''injection'' \<and>
    (cat, rules) \<in> set INJECTION_PATTERNS \<and> (pattern, rid, descr) \<in> set rules \<and>
    start \<in> set (fi pattern content)"
  let ?f = "make_finding path (split_nl content) content rid descr (''Injection ('' @ cat @ '')'')
        (if cat \<in> {''sql'', ''command''} then CRITICAL else HIGH)
        ''Use parameterized queries/safe APIs'' start"
  from a have "?f \<in> set (rule_hits fi path content rules (''Injection ('' @ cat @ '')'')
                   (if cat \<in> {''sql'', ''command''} then CRITICAL else HIGH)
                   ''Use parameterized queries/safe APIs'')"
    unfolding in_rule_hits by blast
  with a have "?f \<in> set (injection_hits fi path content INJECTION_PATTERNS)"
    unfolding in_injection_hits by blast
  with a have "?f \<in> set (file_hits fi path content checks)"
    by (simp add: file_hits_def)
  with a show "?f \<in> set (drop (length (findings r)) (findings (scan_file fi path d checks r)))"
    by (simp add: new_findings_scan_file)
next
  fix f
  assume f: "f \<in> set (drop (length (findings r)) (findings (scan_file fi path d checks r)))"
    and c: "category f \<in> {''Injection (sql)'', ''Injection (command)''}"
  from f obtain content where "f \<in> set (file_hits fi path content checks)"
    unfolding new_findings_scan_file by (cases "read_text d") auto
  from file_hits_category_severity [OF this] c show "severity f = CRITICAL"
    by (elim disjE) auto
next
  fix f
  assume f: "f \<in> set (drop (length (findings r)) (findings (scan_file fi path d checks r)))"
    and c: "category f \<in> {''Injection (xss)'', ''Injection (nosql)''}"
  from f obtain content where "f \<in> set (file_hits fi path content checks)"
    unfolding new_findings_scan_file by (cases "read_text d") auto
  from file_hits_category_severity [OF this] c show "severity f = HIGH"
    by (elim disjE) auto
next
  show "map fst INJECTION_PATTERNS = [''sql'', ''command'', ''xss'', ''nosql'']"
    by (simp add: INJECTION_PATTERNS_def)
qed

theorem injection_rule_sets_applied_together_witness:
  "read_text (Bytes invalid_byte_call) = Inr os_system_call
   \<and> selected None ''injection''
   \<and> (''command'', INJECTION_command) \<in> set INJECTION_PATTERNS
   \<and> (os_system_pattern, ''INJ-010'', ''os.system() is dangerous'') \<in> set INJECTION_command
   \<and> 0 \<in> set (demo_finditer os_system_pattern os_system_call)
   \<and> make_finding app_py (split_nl os_system_call) os_system_call ''INJ-010''
        ''os.system() is dangerous'' ''Injection (command)'' CRITICAL
        ''Use parameterized queries/safe APIs'' 0
      \<in> set (findings (scan_file demo_finditer app_py (Bytes invalid_byte_call) None
                 new_ScanResult))
   \<and> severity (make_finding app_py (split_nl os_system_call) os_system_call ''INJ-010''
        ''os.system() is dangerous'' ''Injection (command)'' CRITICAL
        ''Use parameterized queries/safe APIs'' 0) = CRITICAL"
proof -
  let ?f = "make_finding app_py (split_nl os_system_call) os_system_call ''INJ-010''
        ''os.system() is dangerous'' ''Injection (command)'' CRITICAL
        ''Use parameterized queries/safe APIs'' 0"
  let ?new = "drop (length (findings new_ScanResult))
      (findings (scan_file demo_finditer app_py (Bytes invalid_byte_call) None new_ScanResult))"
  note t = injection_rule_sets_applied_together
    [of "Bytes invalid_byte_call" os_system_call None "''command''" INJECTION_command
       os_system_pattern "''INJ-010''" "''os.system() is dangerous''" 0 demo_finditer
       app_py new_ScanResult]
  have h1: "selected None ''injection''"
    by (simp add: selected_def)
  have h2: "(''command'', INJECTION_command) \<in> set INJECTION_PATTERNS"
    by (simp add: INJECTION_PATTERNS_def)
  have h3: "(os_system_pattern, ''INJ-010'', ''os.system() is dangerous'') \<in> set INJECTION_command"
    by (simp add: INJECTION_command_def os_system_pattern_def)
  have h4: "0 \<in> set (demo_finditer os_system_pattern os_system_call)"
    by (simp add: demo_call)
  have hyp: "read_text (Bytes invalid_byte_call) = Inr os_system_call \<and> selected None ''injection'' \<and>
    (''command'', INJECTION_command) \<in> set INJECTION_PATTERNS \<and>
    (os_system_pattern, ''INJ-010'', ''os.system() is dangerous'') \<in> set INJECTION_command \<and>
    0 \<in> set (demo_finditer os_system_pattern os_system_call)"
    using read_invalid_byte_call h1 h2 h3 h4 by (intro conjI)
  have mem: "?f \<in> set ?new"
    using t [THEN conjunct1, THEN mp, OF hyp] by simp
  have cat: "category ?f \<in> {''Injection (sql)'', ''Injection (command)''}"
    by (simp add: make_finding_def Let_def)
  have sev: "severity ?f = CRITICAL"
    using t [THEN conjunct2, THEN conjunct1, THEN bspec, OF mem, THEN conjunct1, THEN mp, OF cat] .
  have mem': "?f \<in> set (findings (scan_file demo_finditer app_py (Bytes invalid_byte_call) None
                 new_ScanResult))"
    using mem by (simp add: new_ScanResult_def)
  from read_invalid_byte_call h1 h2 h3 h4 mem' sev show ?thesis by (intro conjI)
qed

subsection \<open>A file that cannot be read or decoded\<close>

text \<open>
  Claim C9 as stated fails for a file that cannot be decoded: the only candidate file
  below is not UTF-8, still it is counted, its invalid byte is dropped, and the text
  that remains yields a CRITICAL finding.
\<close>

theorem undecodable_file_yields_finding:
  "get_files invalid_byte_tree = [(app_py, Bytes invalid_byte_call)]
   \<and> undecodable invalid_byte_call
   \<and> read_text (Bytes invalid_byte_call) = Inr os_system_call
   \<and> files_scanned (scan demo_finditer invalid_byte_tree None) = 1
   \<and> map (\<lambda>f. (rule_id f, severity f, file_path f, line_number f))
        (findings (scan demo_finditer invalid_byte_tree None)) =
      [(''INJ-010'', CRITICAL, app_py, 1)]"
proof -
  have g: "get_files invalid_byte_tree = [(app_py, Bytes invalid_byte_call)]"
    unfolding invalid_byte_tree_def by (rule get_files_single [OF candidate_app_py])
  have s: "scan demo_finditer invalid_byte_tree None =
      (scan_file demo_finditer app_py (Bytes invalid_byte_call) None new_ScanResult)
        \<lparr>files_scanned := 1\<rparr>"
    by (rule scan_single_file [OF g])
  have f: "findings (scan demo_finditer invalid_byte_tree None) =
     [make_finding app_py (split_nl os_system_call) os_system_call ''INJ-010''
        ''os.system() is dangerous'' ''Injection (command)'' CRITICAL
        ''Use parameterized queries/safe APIs'' 0]"
    by (simp add: s findings_scan_file read_invalid_byte_call file_hits_demo_call
          new_ScanResult_def)
  have m: "map (\<lambda>f. (rule_id f, severity f, file_path f, line_number f))
        (findings (scan demo_finditer invalid_byte_tree None)) =
      [(''INJ-010'', CRITICAL, app_py, 1)]"
    by (simp add: f make_finding_def Let_def)
  have n: "files_scanned (scan demo_finditer invalid_byte_tree None) = 1"
    by (simp add: s)
  from g undecodable_invalid_byte_call read_invalid_byte_call n m show ?thesis
    by (intro conjI)
qed

lemma rule_hits_empty_iff:
  "rule_hits fi path content rules cat sev remed = [] \<longleftrightarrow>
     list_all (\<lambda>(pattern, rid, descr). fi pattern content = []) rules"
  by (induction rules) (auto simp: rule_hits_def)

lemma injection_hits_empty_iff:
  "injection_hits fi path content items = [] \<longleftrightarrow>
     list_all (\<lambda>(pattern, rid, descr). fi pattern content = []) (concat (map snd items))"
  by (auto simp: injection_hits_def rule_hits_empty_iff list_all_iff case_prod_unfold)

lemma file_hits_empty_iff:
  "file_hits fi path content checks = [] \<longleftrightarrow>
     list_all (\<lambda>(pattern, rid, descr). fi pattern content = []) (selected_rules checks)"
  by (simp add: file_hits_def selected_rules_def rule_hits_empty_iff injection_hits_empty_iff)

text \<open>
  Claim C9, amended. When a directory holds one candidate file, the scan returns with
  \<open>files_scanned = 1\<close> and the findings of that file alone. A file that cannot be read
  contributes no finding. A file whose bytes are not UTF-8 is decoded with the invalid
  bytes dropped and scanned like any other: it contributes no finding exactly when no
  rule of the selected categories matches the text that remains.
\<close>

theorem unreadable_file_contributes_nothing:
  "get_files root = [(path, d)] \<longrightarrow>
     files_scanned (scan fi root checks) = 1 \<and>
     findings (scan fi root checks) = findings (scan_file fi path d checks new_ScanResult) \<and>
     (d = Unreadable \<longrightarrow> findings (scan fi root checks) = []) \<and>
     (\<forall>bs. d = Bytes bs \<longrightarrow>
        (findings (scan fi root checks) = [] \<longleftrightarrow>
           list_all (\<lambda>(pattern, rid, descr).
                       fi pattern (universal_newlines (utf8_decode_ignore bs)) = [])
             (selected_rules checks)))"
proof
  assume g: "get_files root = [(path, d)]"
  have s: "scan fi root checks = (scan_file fi path d checks new_ScanResult)\<lparr>files_scanned := 1\<rparr>"
    by (rule scan_single_file [OF g])
  have a: "files_scanned (scan fi root checks) = 1"
    by (simp add: s)
  have b: "findings (scan fi root checks) = findings (scan_file fi path d checks new_ScanResult)"
    by (simp add: s)
  have c: "findings (scan fi root checks) = []" if "d = Unreadable"
    using that by (simp add: b findings_scan_file read_text_def new_ScanResult_def)
  have e: "findings (scan fi root checks) = [] \<longleftrightarrow>
           list_all (\<lambda>(pattern, rid, descr).
                       fi pattern (universal_newlines (utf8_decode_ignore bs)) = [])
             (selected_rules checks)"
    if "d = Bytes bs" for bs
    using that
    by (simp add: b findings_scan_file read_text_def new_ScanResult_def file_hits_empty_iff)
  from a b c e show "files_scanned (scan fi root checks) = 1 \<and>
     findings (scan fi root checks) = findings (scan_file fi path d checks new_ScanResult) \<and>
     (d = Unreadable \<longrightarrow> findings (scan fi root checks) = []) \<and>
     (\<forall>bs. d = Bytes bs \<longrightarrow>
        (findings (scan fi root checks) = [] \<longleftrightarrow>
           list_all (\<lambda>(pattern, rid, descr).
                       fi pattern (universal_newlines (utf8_decode_ignore bs)) = [])
             (selected_rules checks)))"
    by blast
qed

theorem unreadable_file_contributes_nothing_witness:
  "get_files unreadable_tree = [(app_py, Unreadable)]
   \<and> files_scanned (scan demo_finditer unreadable_tree None) = 1
   \<and> findings (scan demo_finditer unreadable_tree None) = []
   \<and> get_files garbage_tree = [(app_py, Bytes [0xFF, 0xFE])]
   \<and> list_all (\<lambda>(pattern, rid, descr).
                 demo_finditer pattern (universal_newlines (utf8_decode_ignore [0xFF, 0xFE])) = [])
        (selected_rules None)
   \<and> files_scanned (scan demo_finditer garbage_tree None) = 1
   \<and> findings (scan demo_finditer garbage_tree None) = []
   \<and> get_files invalid_byte_tree = [(app_py, Bytes invalid_byte_call)]
   \<and> findings (scan demo_finditer invalid_byte_tree None) \<noteq> []
   \<and> \<not> list_all (\<lambda>(pattern, rid, descr).
                   demo_finditer pattern (universal_newlines (utf8_decode_ignore invalid_byte_call))
                     = [])
          (selected_rules None)"
proof -
  have g1: "get_files unreadable_tree = [(app_py, Unreadable)]"
    unfolding unreadable_tree_def by (rule get_files_single [OF candidate_app_py])
  have g2: "get_files garbage_tree = [(app_py, Bytes [0xFF, 0xFE])]"
    unfolding garbage_tree_def by (rule get_files_single [OF candidate_app_py])
  have g3: "get_files invalid_byte_tree = [(app_py, Bytes invalid_byte_call)]"
    unfolding invalid_byte_tree_def by (rule get_files_single [OF candidate_app_py])
  have quiet: "demo_finditer pattern [] = []" for pattern
    by (simp add: demo_finditer_def)
  have n: "list_all (\<lambda>(pattern, rid, descr).
                 demo_finditer pattern (universal_newlines (utf8_decode_ignore [0xFF, 0xFE])) = [])
        (selected_rules None)"
    by (simp only: decode_garbage quiet) (simp add: list_all_iff split_beta)
  note t1 = unreadable_file_contributes_nothing
    [of unreadable_tree app_py Unreadable demo_finditer None, THEN mp, OF g1]
  note t2 = unreadable_file_contributes_nothing
    [of garbage_tree app_py "Bytes [0xFF, 0xFE]" demo_finditer None, THEN mp, OF g2]
  note t3 = unreadable_file_contributes_nothing
    [of invalid_byte_tree app_py "Bytes invalid_byte_call" demo_finditer None, THEN mp, OF g3]
  have a1: "files_scanned (scan demo_finditer unreadable_tree None) = 1"
    using t1 by (rule conjunct1)
  have b1: "findings (scan demo_finditer unreadable_tree None) = []"
    using t1 [THEN conjunct2, THEN conjunct2, THEN conjunct1] by simp
  have a2: "files_scanned (scan demo_finditer garbage_tree None) = 1"
    using t2 by (rule conjunct1)
  have b2: "findings (scan demo_finditer garbage_tree None) = []"
    using t2 [THEN conjunct2, THEN conjunct2, THEN conjunct2, THEN spec, of "[0xFF, 0xFE]"] n
    by simp
  have f3: "findings (scan demo_finditer invalid_byte_tree None) \<noteq> []"
    by (simp add: scan_single_file [OF g3] findings_scan_file read_invalid_byte_call
          file_hits_demo_call new_ScanResult_def)
  have n3: "\<not> list_all (\<lambda>(pattern, rid, descr).
                   demo_finditer pattern (universal_newlines (utf8_decode_ignore invalid_byte_call))
                     = [])
          (selected_rules None)"
    using t3 [THEN conjunct2, THEN conjunct2, THEN conjunct2, THEN spec, of invalid_byte_call] f3
    by simp
  from g1 a1 b1 g2 n a2 b2 g3 f3 n3 show ?thesis by (intro conjI)
qed

end
